theory Spec2Isabelle
  imports Complex_Main "HOL-Library.AList"
begin

section \<open>JavaScript values of the relay\<close>

text \<open>
  The relay (\<^verbatim>\<open>src/index.js\<close>, which holds two variants of the server) moves JSON
  values between its caller and the upstream API. A parsed JSON value is a \<open>json\<close>; an
  object keeps its properties as an association list in the object's own property order.
  A number is what \<^verbatim>\<open>JSON.parse\<close> makes of a JSON number: a finite value (here a
  rational, of which the doubles are some) or, for a literal such as \<^verbatim>\<open>1e400\<close>, an
  infinity; \<^verbatim>\<open>-0\<close> is \<open>Fin 0\<close>, and \<^verbatim>\<open>NaN\<close> is no JSON.
  A JavaScript value that may be \<^verbatim>\<open>undefined\<close> is a \<open>json option\<close>, \<open>None\<close> being
  \<^verbatim>\<open>undefined\<close>.
\<close>

datatype number = Fin rat | PInf | NInf

datatype json =
    JNull
  | JBool bool
  | JNum number
  | JStr string
  | JArr "json list"
  | JObj "(string \<times> json) list"

text \<open>JavaScript's truthiness, as \<^verbatim>\<open>!x\<close>, \<^verbatim>\<open>if (x)\<close> and \<^verbatim>\<open>x ? a : b\<close> read it.\<close>

fun truthy :: "json option \<Rightarrow> bool" where
  "truthy None = False"
| "truthy (Some JNull) = False"
| "truthy (Some (JBool b)) = b"
| "truthy (Some (JNum x)) = (x \<noteq> Fin 0)"
| "truthy (Some (JStr s)) = (s \<noteq> [])"
| "truthy (Some (JArr xs)) = True"
| "truthy (Some (JObj fs)) = True"

text \<open>
  Reading a property of a value that is neither \<^verbatim>\<open>null\<close> nor \<^verbatim>\<open>undefined\<close>. The code
  reads \<^verbatim>\<open>amount\<close>, \<^verbatim>\<open>userId\<close>, \<^verbatim>\<open>data\<close>, \<^verbatim>\<open>qr_string\<close> and \<^verbatim>\<open>success\<close> only, none of
  which a string, a number, a boolean or an array has.
\<close>

fun get_prop :: "json \<Rightarrow> string \<Rightarrow> json option" where
  "get_prop (JObj fs) k = map_of fs k"
| "get_prop v k = None"

text \<open>
  \<^verbatim>\<open>v.k\<close> throws a TypeError when \<^verbatim>\<open>v\<close> is \<^verbatim>\<open>null\<close>; a thrown error is \<open>Inl\<close> of its
  message. The texts of the runtime's own errors are those of V8, on which Node runs, as
  Node 16.9 and later word them.
\<close>

definition null_read :: "string \<Rightarrow> string" where
  "null_read k = ''Cannot read properties of null (reading '' @ [CHR 0x27] @ k @ [CHR 0x27] @ '')''"

definition member :: "json \<Rightarrow> string \<Rightarrow> string + json option" where
  "member v k = (case v of JNull \<Rightarrow> Inl (null_read k) | _ \<Rightarrow> Inr (get_prop v k))"

text \<open>\<^verbatim>\<open>x?.k\<close>: \<^verbatim>\<open>undefined\<close> when \<^verbatim>\<open>x\<close> is \<^verbatim>\<open>null\<close> or \<^verbatim>\<open>undefined\<close>.\<close>

definition opt_member :: "json option \<Rightarrow> string \<Rightarrow> json option" where
  "opt_member x k = (case x of None \<Rightarrow> None | Some JNull \<Rightarrow> None | Some v \<Rightarrow> get_prop v k)"

text \<open>
  What \<^verbatim>\<open>JSON.stringify\<close> writes for a value, as the JSON value its text denotes: an
  infinity is written \<^verbatim>\<open>null\<close>, everything else as it is.
\<close>

fun wire :: "json \<Rightarrow> json" where
  "wire (JNum x) = (case x of Fin r \<Rightarrow> JNum (Fin r) | PInf \<Rightarrow> JNull | NInf \<Rightarrow> JNull)"
| "wire (JArr xs) = JArr (map wire xs)"
| "wire (JObj fs) = JObj (map (\<lambda>p. (fst p, wire (snd p))) fs)"
| "wire v = v"

text \<open>\<^verbatim>\<open>s.includes(p)\<close>: \<open>p\<close> occurs in \<open>s\<close>.\<close>

fun str_includes :: "string \<Rightarrow> string \<Rightarrow> bool" where
  "str_includes [] p = (p = [])"
| "str_includes (c # cs) p = (take (length p) (c # cs) = p \<or> str_includes cs p)"

section \<open>The outside world\<close>

text \<open>
  What the code hands to \<^verbatim>\<open>fetch\<close>: the URL, the method, the headers (each value is
  the JavaScript value the code puts there) and, for a POST, the body as the JSON value
  that the text made by \<^verbatim>\<open>JSON.stringify\<close> denotes.
\<close>

record outbound =
  url :: string
  http_method :: string
  headers :: "(string \<times> json option) list"
  payload :: "json option"

text \<open>
  What \<^verbatim>\<open>fetch\<close> resolves to: the status, the \<^verbatim>\<open>content-type\<close> header
  (\<^verbatim>\<open>headers.get\<close> gives \<^verbatim>\<open>null\<close>, here \<open>None\<close>, when there is none) and the body text, or
  the message of the error that reading the body raises.
\<close>

record upstream_response =
  status_code :: int
  content_type :: "string option"
  body_text :: "string + string"

text \<open>The options \<^verbatim>\<open>generateQRIS\<close> passes to the QR encoder.\<close>

record qr_options =
  errorCorrectionLevel :: string
  image_type :: string
  width :: nat

text \<open>
  The libraries, the clock and a part of the runtime are parameters of the model:
  \<open>fetch\<close> (node-fetch; \<open>Inl\<close> is the message of the error it rejects with), \<open>json_parse\<close>
  (\<^verbatim>\<open>JSON.parse\<close>, which \<^verbatim>\<open>response.json()\<close> applies to the body text), \<open>toDataURL\<close>
  (\<^verbatim>\<open>QRCode.toDataURL\<close>), \<open>now_iso\<close> (\<^verbatim>\<open>new Date().toISOString()\<close>) and \<open>float_text\<close>
  (the text of a number that is not an integer every double can hold).
\<close>

record env =
  fetch :: "outbound \<Rightarrow> string + upstream_response"
  json_parse :: "string \<Rightarrow> string + json"
  toDataURL :: "json \<Rightarrow> qr_options \<Rightarrow> string + string"
  now_iso :: string
  float_text :: "rat \<Rightarrow> string"

text \<open>\<^verbatim>\<open>await response.json()\<close>\<close>

definition response_json :: "env \<Rightarrow> upstream_response \<Rightarrow> string + json" where
  "response_json e r = (case body_text r of Inl m \<Rightarrow> Inl m | Inr t \<Rightarrow> json_parse e t)"

text \<open>
  What a route handler does with a request: it hands a status and a body to
  \<^verbatim>\<open>res.status(s).json(b)\<close> (the body is the object handed to Express, which writes
  it), or an error escapes it and the handler sends nothing.
\<close>

datatype outcome = Reply int json | Fault string

subsection \<open>Conversion to string\<close>

text \<open>
  The decimal text of an integer. \<^verbatim>\<open>String\<close> gives it for every integer up to
  \<open>2^53 - 1\<close> in size; the text of any other finite number is the runtime's
  (\<open>float_text\<close>).
\<close>

fun string_of_nat :: "nat \<Rightarrow> string" where
  "string_of_nat n =
     (if n < 10 then [''0123456789'' ! n]
      else string_of_nat (n div 10) @ [''0123456789'' ! (n mod 10)])"

declare string_of_nat.simps [simp del]

definition decimal :: "int \<Rightarrow> string" where
  "decimal i = (if i < 0 then CHR ''-'' # string_of_nat (nat (- i)) else string_of_nat (nat i))"

definition number_text :: "env \<Rightarrow> number \<Rightarrow> string" where
  "number_text e x =
     (case x of
        Fin r \<Rightarrow>
          if of_int \<lfloor>r\<rfloor> = r \<and> \<bar>r\<bar> \<le> 9007199254740991 then decimal \<lfloor>r\<rfloor>
          else float_text e r
      | PInf \<Rightarrow> ''Infinity''
      | NInf \<Rightarrow> ''-Infinity'')"

text \<open>
  A template literal \<^verbatim>\<open>`${v}`\<close> converts \<^verbatim>\<open>v\<close> to a string. An array gives its elements
  joined by commas, with \<^verbatim>\<open>null\<close> as the empty text; an object gives
  \<^verbatim>\<open>[object Object]\<close>, unless it has a property \<^verbatim>\<open>toString\<close> of its own: no JSON value
  is a function, so the conversion finds no method that yields a primitive and throws a
  TypeError. The first element of an array that throws decides.
\<close>

definition no_primitive :: string where
  "no_primitive = ''Cannot convert object to primitive value''"

fun join_comma :: "string list \<Rightarrow> string" where
  "join_comma [] = []"
| "join_comma [s] = s"
| "join_comma (s # t # ss) = s @ '','' @ join_comma (t # ss)"

fun all_converted :: "(string + string) list \<Rightarrow> string + string list" where
  "all_converted [] = Inr []"
| "all_converted (Inl m # cs) = Inl m"
| "all_converted (Inr s # cs) = (case all_converted cs of Inl m \<Rightarrow> Inl m | Inr ss \<Rightarrow> Inr (s # ss))"

fun to_js_string :: "env \<Rightarrow> json \<Rightarrow> string + string" where
  "to_js_string e JNull = Inr ''null''"
| "to_js_string e (JBool b) = Inr (if b then ''true'' else ''false'')"
| "to_js_string e (JNum x) = Inr (number_text e x)"
| "to_js_string e (JStr s) = Inr s"
| "to_js_string e (JArr xs) =
     (case all_converted (map (\<lambda>x. if x = JNull then Inr [] else to_js_string e x) xs) of
        Inl m \<Rightarrow> Inl m
      | Inr ss \<Rightarrow> Inr (join_comma ss))"
| "to_js_string e (JObj fs) =
     (case map_of fs ''toString'' of
        None \<Rightarrow> Inr ''[object Object]''
      | Some f \<Rightarrow> Inl no_primitive)"

text \<open>The conversion of a value that may be \<^verbatim>\<open>undefined\<close>.\<close>

definition js_string :: "env \<Rightarrow> json option \<Rightarrow> string + string" where
  "js_string e x = (case x of None \<Rightarrow> Inr ''undefined'' | Some v \<Rightarrow> to_js_string e v)"

text \<open>
  \<^verbatim>\<open>{...v}\<close>: the own enumerable properties of \<^verbatim>\<open>v\<close>, in order. An object gives its
  properties, an array and a string their elements under their indices, anything else
  nothing.
\<close>

definition indexed :: "json list \<Rightarrow> (string \<times> json) list" where
  "indexed xs = zip (map string_of_nat [0..<length xs]) xs"

fun spread :: "json option \<Rightarrow> (string \<times> json) list" where
  "spread (Some (JObj fs)) = fs"
| "spread (Some (JArr xs)) = indexed xs"
| "spread (Some (JStr s)) = indexed (map (\<lambda>c. JStr [c]) s)"
| "spread x = []"

section \<open>First variant of the server\<close>

subsection \<open>Outbound requests\<close>

text \<open>Headers whose values are string literals of the code.\<close>

definition text_headers :: "(string \<times> string) list \<Rightarrow> (string \<times> json option) list" where
  "text_headers hs = map (\<lambda>h. (fst h, Some (JStr (snd h)))) hs"

definition browser_headers :: "(string \<times> string) list" where
  "browser_headers =
     [(''Host'', ''backend.saweria.co''),
      (''Accept'', ''*/*''),
      (''Sec-Fetch-Site'', ''same-site''),
      (''Origin'', ''https://saweria.co''),
      (''Sec-Fetch-Mode'', ''cors''),
      (''User-Agent'', ''Mozilla/5.0 (iPhone; CPU iPhone OS 18_2 like Mac OS X) AppleWebKit/605.1.15 (KHTML, like Gecko) Version/18.2 Mobile/15E148 Safari/604.1''),
      (''Referer'', ''https://saweria.co/''),
      (''Sec-Fetch-Dest'', ''empty''),
      (''Accept-Language'', ''id-ID,id;q=0.9''),
      (''Priority'', ''u=3, i''),
      (''Connection'', ''keep-alive'')]"

text \<open>
  The donation the code serialises with \<^verbatim>\<open>JSON.stringify\<close>, which leaves out a
  property whose value is \<^verbatim>\<open>undefined\<close>.
\<close>

definition donation_body :: "json option \<Rightarrow> json" where
  "donation_body amount =
     JObj ([(''agree'', JBool True),
            (''notUnderage'', JBool True),
            (''message'', JStr ''Donation via API'')]
           @ (case amount of None \<Rightarrow> [] | Some a \<Rightarrow> [(''amount'', wire a)])
           @ [(''payment_type'', JStr ''qris''),
              (''vote'', JStr []),
              (''currency'', JStr ''IDR''),
              (''customer_info'',
                 JObj [(''first_name'', JStr ''Anonymous''),
                       (''email'', JStr ''no-reply@donation.my.id''),
                       (''phone'', JStr [])])])"

text \<open>The request for a donation, given the amount and the text of \<^verbatim>\<open>${userId}\<close>.\<close>

definition qris_request :: "json option \<Rightarrow> string \<Rightarrow> outbound" where
  "qris_request amount uid =
     \<lparr>url = ''https://backend.saweria.co/donations/'' @ uid,
      http_method = ''POST'',
      headers = text_headers (browser_headers @ [(''Content-Type'', ''application/json'')]),
      payload = Some (donation_body amount)\<rparr>"

definition status_request :: "string \<Rightarrow> outbound" where
  "status_request donationId =
     \<lparr>url = ''https://backend.saweria.co/donations/qris/'' @ donationId,
      http_method = ''GET'',
      headers = text_headers (browser_headers @ [(''Content-Type'', ''application/json'')]),
      payload = None\<rparr>"

text \<open>\<^verbatim>\<open>Authorization: token\<close>: the header is the token itself.\<close>

definition balance_request :: "json option \<Rightarrow> outbound" where
  "balance_request token =
     \<lparr>url = ''https://backend.saweria.co/donations/balance'',
      http_method = ''GET'',
      headers = text_headers browser_headers @ [(''Authorization'', token)],
      payload = None\<rparr>"

subsection \<open>The three operations\<close>

definition qr_opts :: qr_options where
  "qr_opts = \<lparr>errorCorrectionLevel = ''H'', image_type = ''image/png'', width = 300\<rparr>"

text \<open>The object a \<^verbatim>\<open>catch\<close> block returns for an error with message \<open>m\<close>.\<close>

definition failure :: "string \<Rightarrow> json" where
  "failure m = JObj [(''success'', JBool False), (''error'', JStr m)]"

text \<open>
  A \<^verbatim>\<open>try\<close> block gives what it returns or the message of what it throws, together
  with the requests it handed to \<^verbatim>\<open>fetch\<close> until then; the \<^verbatim>\<open>catch\<close> block turns a
  thrown error into the failure object.
\<close>

definition caught :: "(string + json) \<times> outbound list \<Rightarrow> json \<times> outbound list" where
  "caught t = (case fst t of Inl m \<Rightarrow> failure m | Inr r \<Rightarrow> r, snd t)"

text \<open>
  From \<^verbatim>\<open>if (result.data?.qr_string)\<close> on: \<open>no_qr\<close> is the message of the error the
  \<^verbatim>\<open>else\<close> branch throws. The key \<^verbatim>\<open>qr_image\<close> is written after the spread: it replaces
  a property of that name where it stands, and is added last otherwise.
\<close>

definition qris_result :: "env \<Rightarrow> string \<Rightarrow> json \<Rightarrow> string + json" where
  "qris_result e no_qr result =
     (case member result ''data'' of
        Inl m \<Rightarrow> Inl m
      | Inr d \<Rightarrow>
          (case opt_member d ''qr_string'' of
             None \<Rightarrow> Inl no_qr
           | Some q \<Rightarrow>
               if truthy (Some q) then
                 (case toDataURL e q qr_opts of
                    Inl m \<Rightarrow> Inl m
                  | Inr qrImageData \<Rightarrow>
                      Inr (JObj [(''success'', JBool True),
                                 (''data'', JObj (AList.update ''qr_image'' (JStr qrImageData) (spread d)))]))
               else Inl no_qr))"

text \<open>The \<^verbatim>\<open>try\<close> block of \<^verbatim>\<open>generateQRIS\<close> from the call of \<^verbatim>\<open>fetch\<close> on.\<close>

definition generateQRIS_fetch :: "env \<Rightarrow> outbound \<Rightarrow> string + json" where
  "generateQRIS_fetch e rq =
     (case fetch e rq of
        Inl m \<Rightarrow> Inl m
      | Inr response \<Rightarrow>
          (case response_json e response of
             Inl m \<Rightarrow> Inl m
           | Inr result \<Rightarrow> qris_result e ''Failed to generate QRIS: No QR string in response'' result))"

text \<open>The \<^verbatim>\<open>try\<close> block: the call of \<^verbatim>\<open>fetch\<close> is its first statement.\<close>

definition generateQRIS_try :: "env \<Rightarrow> json option \<Rightarrow> string \<Rightarrow> (string + json) \<times> outbound list" where
  "generateQRIS_try e amount uid =
     (let rq = qris_request amount uid in (generateQRIS_fetch e rq, [rq]))"

text \<open>
  \<^verbatim>\<open>generateQRIS\<close> builds the URL with \<^verbatim>\<open>${userId}\<close> before its \<^verbatim>\<open>try\<close>: when that
  conversion throws, the function rejects (\<open>Inl\<close>) and has called nothing. Otherwise it
  returns its result object together with the requests it handed to \<^verbatim>\<open>fetch\<close>.
\<close>

definition generateQRIS :: "env \<Rightarrow> json option \<Rightarrow> json option \<Rightarrow> string + (json \<times> outbound list)" where
  "generateQRIS e amount userId =
     (case js_string e userId of
        Inl m \<Rightarrow> Inl m
      | Inr uid \<Rightarrow> Inr (caught (generateQRIS_try e amount uid)))"

definition status_result :: "json \<Rightarrow> string + json" where
  "status_result result =
     (case member result ''data'' of
        Inl m \<Rightarrow> Inl m
      | Inr d \<Rightarrow>
          (case d of
             None \<Rightarrow> Inl ''Invalid response structure''
           | Some dv \<Rightarrow>
               if truthy (Some dv) then
                 Inr (JObj [(''success'', JBool True),
                            (''status'', JStr (if truthy (get_prop dv ''qr_string'') then ''PENDING'' else ''PAID'')),
                            (''data'', dv)])
               else Inl ''Invalid response structure''))"

definition checkPaymentStatus_fetch :: "env \<Rightarrow> outbound \<Rightarrow> string + json" where
  "checkPaymentStatus_fetch e rq =
     (case fetch e rq of
        Inl m \<Rightarrow> Inl m
      | Inr response \<Rightarrow>
          (case response_json e response of
             Inl m \<Rightarrow> Inl m
           | Inr result \<Rightarrow> status_result result))"

text \<open>The donation id is a path parameter, a string.\<close>

definition checkPaymentStatus :: "env \<Rightarrow> string \<Rightarrow> json \<times> outbound list" where
  "checkPaymentStatus e donationId =
     (let rq = status_request donationId in caught (checkPaymentStatus_fetch e rq, [rq]))"

definition balance_result :: "json \<Rightarrow> string + json" where
  "balance_result result =
     (case member result ''data'' of
        Inl m \<Rightarrow> Inl m
      | Inr d \<Rightarrow>
          (case d of
             None \<Rightarrow> Inl ''Failed to fetch balance''
           | Some dv \<Rightarrow>
               if truthy (Some dv) then Inr (JObj [(''success'', JBool True), (''balance'', dv)])
               else Inl ''Failed to fetch balance''))"

definition checkAccountBalance_fetch :: "env \<Rightarrow> outbound \<Rightarrow> string + json" where
  "checkAccountBalance_fetch e rq =
     (case fetch e rq of
        Inl m \<Rightarrow> Inl m
      | Inr response \<Rightarrow>
          (case response_json e response of
             Inl m \<Rightarrow> Inl m
           | Inr result \<Rightarrow> balance_result result))"

definition checkAccountBalance :: "env \<Rightarrow> json option \<Rightarrow> json \<times> outbound list" where
  "checkAccountBalance e token =
     (let rq = balance_request token in caught (checkAccountBalance_fetch e rq, [rq]))"

subsection \<open>The route handlers\<close>

text \<open>\<^verbatim>\<open>res.status(result.success ? 200 : 400).json(result)\<close>\<close>

definition respond :: "json \<times> outbound list \<Rightarrow> outcome \<times> outbound list" where
  "respond rc =
     (Reply (if truthy (get_prop (fst rc) ''success'') then 200 else 400) (fst rc), snd rc)"

text \<open>
  \<^verbatim>\<open>POST /qris\<close>, given \<^verbatim>\<open>req.body\<close>. Destructuring \<^verbatim>\<open>null\<close> throws outside any
  \<^verbatim>\<open>try\<close> (\<^verbatim>\<open>bodyParser.json()\<close> hands over an object or an array), and the handler
  does not catch a rejection of \<^verbatim>\<open>generateQRIS\<close>: in both cases it sends nothing.
\<close>

definition destructure_null :: string where
  "destructure_null = ''Cannot destructure property of null''"

definition post_qris :: "env \<Rightarrow> json \<Rightarrow> outcome \<times> outbound list" where
  "post_qris e body =
     (case body of
        JNull \<Rightarrow> (Fault destructure_null, [])
      | _ \<Rightarrow>
          (let amount = get_prop body ''amount''; userId = get_prop body ''userId''
           in if \<not> truthy amount \<or> \<not> truthy userId then
                (Reply 400 (failure ''Amount and userId are required''), [])
              else
                (case generateQRIS e amount userId of
                   Inl m \<Rightarrow> (Fault m, [])
                 | Inr result \<Rightarrow> respond result)))"

text \<open>\<^verbatim>\<open>GET /status/:donationId\<close>, given the path parameter.\<close>

definition get_status :: "env \<Rightarrow> string \<Rightarrow> outcome \<times> outbound list" where
  "get_status e donationId = respond (checkPaymentStatus e donationId)"

text \<open>\<^verbatim>\<open>GET /balance\<close>, given \<^verbatim>\<open>req.query.token\<close>.\<close>

definition get_balance :: "env \<Rightarrow> json option \<Rightarrow> outcome \<times> outbound list" where
  "get_balance e token =
     (if \<not> truthy token then (Reply 400 (failure ''Token is required''), [])
      else respond (checkAccountBalance e token))"

section \<open>Second variant of the server\<close>

text \<open>
  The second server of \<^verbatim>\<open>src/index.js\<close> sends other headers, logs the user id and the
  amount at the start of the \<^verbatim>\<open>try\<close> block of \<^verbatim>\<open>generateQRIS\<close>, looks at the content
  type of the reply to a donation before parsing it, stamps the failure of
  \<^verbatim>\<open>generateQRIS\<close> with the time, and prefixes the balance token with \<^verbatim>\<open>Bearer\<close>.
\<close>

definition qris_request_v2 :: "json option \<Rightarrow> string \<Rightarrow> outbound" where
  "qris_request_v2 amount uid =
     \<lparr>url = ''https://backend.saweria.co/donations/'' @ uid,
      http_method = ''POST'',
      headers = text_headers
        [(''Accept'', ''application/json, text/plain, */*''),
         (''Accept-Language'', ''id-ID,id;q=0.9,en;q=0.8''),
         (''Content-Type'', ''application/json''),
         (''Origin'', ''https://saweria.co''),
         (''Referer'', ''https://saweria.co/''),
         (''User-Agent'', ''Mozilla/5.0 (Windows NT 10.0; Win64; x64) AppleWebKit/537.36 (KHTML, like Gecko) Chrome/120.0.0.0 Safari/537.36'')],
      payload = Some (donation_body amount)\<rparr>"

definition status_request_v2 :: "string \<Rightarrow> outbound" where
  "status_request_v2 donationId =
     \<lparr>url = ''https://backend.saweria.co/donations/qris/'' @ donationId,
      http_method = ''GET'',
      headers = text_headers
        [(''Accept'', ''application/json''),
         (''Content-Type'', ''application/json''),
         (''Origin'', ''https://saweria.co''),
         (''Referer'', ''https://saweria.co/''),
         (''User-Agent'', ''Mozilla/5.0 (Windows NT 10.0; Win64; x64) AppleWebKit/537.36'')],
      payload = None\<rparr>"

text \<open>
  \<^verbatim>\<open>Authorization: `Bearer ${token}`\<close>, given the text of \<^verbatim>\<open>${token}\<close>.
\<close>

definition balance_request_v2 :: "string \<Rightarrow> outbound" where
  "balance_request_v2 t =
     \<lparr>url = ''https://backend.saweria.co/donations/balance'',
      http_method = ''GET'',
      headers = text_headers
        [(''Accept'', ''application/json''),
         (''Origin'', ''https://saweria.co''),
         (''Referer'', ''https://saweria.co/''),
         (''User-Agent'', ''Mozilla/5.0 (Windows NT 10.0; Win64; x64) AppleWebKit/537.36''),
         (''Authorization'', ''Bearer '' @ t)],
      payload = None\<rparr>"

definition failure_v2 :: "env \<Rightarrow> string \<Rightarrow> json" where
  "failure_v2 e m = JObj [(''success'', JBool False), (''error'', JStr m), (''timestamp'', JStr (now_iso e))]"

definition caught_v2 :: "env \<Rightarrow> (string + json) \<times> outbound list \<Rightarrow> json \<times> outbound list" where
  "caught_v2 e t = (case fst t of Inl m \<Rightarrow> failure_v2 e m | Inr r \<Rightarrow> r, snd t)"

text \<open>\<^verbatim>\<open>!contentType || !contentType.includes("application/json")\<close>\<close>

definition not_json :: "string option \<Rightarrow> bool" where
  "not_json contentType =
     (case contentType of
        None \<Rightarrow> True
      | Some ct \<Rightarrow> ct = [] \<or> \<not> str_includes ct ''application/json'')"

text \<open>The message of the error thrown for a reply that is not JSON, given its text.\<close>

definition non_json_error :: "env \<Rightarrow> upstream_response \<Rightarrow> string \<Rightarrow> string" where
  "non_json_error e response textResponse =
     (if str_includes textResponse ''cloudflare'' \<or> str_includes textResponse ''cf-ray'' then
        ''Cloudflare protection detected. Try using VPS with Indonesian IP or wait a few minutes.''
      else if str_includes textResponse ''<!DOCTYPE'' then
        ''Saweria returned HTML page. User ID might be invalid.''
      else ''API returned non-JSON response: '' @ number_text e (Fin (of_int (status_code response))))"

definition generateQRIS_fetch_v2 :: "env \<Rightarrow> outbound \<Rightarrow> string + json" where
  "generateQRIS_fetch_v2 e rq =
     (case fetch e rq of
        Inl m \<Rightarrow> Inl m
      | Inr response \<Rightarrow>
          if not_json (content_type response) then
            (case body_text response of
               Inl m \<Rightarrow> Inl m
             | Inr textResponse \<Rightarrow> Inl (non_json_error e response textResponse))
          else
            (case response_json e response of
               Inl m \<Rightarrow> Inl m
             | Inr result \<Rightarrow> qris_result e ''No QR string in response'' result))"

text \<open>
  The \<^verbatim>\<open>try\<close> block starts with the log line, whose template converts \<^verbatim>\<open>userId\<close> and
  then \<^verbatim>\<open>amount\<close> to strings: a conversion that throws ends the block before
  \<^verbatim>\<open>fetch\<close> is called.
\<close>

definition generateQRIS_try_v2 ::
  "env \<Rightarrow> json option \<Rightarrow> json option \<Rightarrow> string \<Rightarrow> (string + json) \<times> outbound list" where
  "generateQRIS_try_v2 e amount userId uid =
     (case js_string e userId of
        Inl m \<Rightarrow> (Inl m, [])
      | Inr u \<Rightarrow>
          (case js_string e amount of
             Inl m \<Rightarrow> (Inl m, [])
           | Inr a \<Rightarrow>
               (let rq = qris_request_v2 amount uid in (generateQRIS_fetch_v2 e rq, [rq]))))"

definition generateQRIS_v2 :: "env \<Rightarrow> json option \<Rightarrow> json option \<Rightarrow> string + (json \<times> outbound list)" where
  "generateQRIS_v2 e amount userId =
     (case js_string e userId of
        Inl m \<Rightarrow> Inl m
      | Inr uid \<Rightarrow> Inr (caught_v2 e (generateQRIS_try_v2 e amount userId uid)))"

definition checkPaymentStatus_v2 :: "env \<Rightarrow> string \<Rightarrow> json \<times> outbound list" where
  "checkPaymentStatus_v2 e donationId =
     (let rq = status_request_v2 donationId in caught (checkPaymentStatus_fetch e rq, [rq]))"

text \<open>
  The header template \<^verbatim>\<open>`Bearer ${token}`\<close> is evaluated inside the \<^verbatim>\<open>try\<close> block,
  before \<^verbatim>\<open>fetch\<close> is called.
\<close>

definition checkAccountBalance_try_v2 :: "env \<Rightarrow> json option \<Rightarrow> (string + json) \<times> outbound list" where
  "checkAccountBalance_try_v2 e token =
     (case js_string e token of
        Inl m \<Rightarrow> (Inl m, [])
      | Inr t \<Rightarrow> (let rq = balance_request_v2 t in (checkAccountBalance_fetch e rq, [rq])))"

definition checkAccountBalance_v2 :: "env \<Rightarrow> json option \<Rightarrow> json \<times> outbound list" where
  "checkAccountBalance_v2 e token = caught (checkAccountBalance_try_v2 e token)"

definition post_qris_v2 :: "env \<Rightarrow> json \<Rightarrow> outcome \<times> outbound list" where
  "post_qris_v2 e body =
     (case body of
        JNull \<Rightarrow> (Fault destructure_null, [])
      | _ \<Rightarrow>
          (let amount = get_prop body ''amount''; userId = get_prop body ''userId''
           in if \<not> truthy amount \<or> \<not> truthy userId then
                (Reply 400 (failure ''Amount and userId are required''), [])
              else
                (case generateQRIS_v2 e amount userId of
                   Inl m \<Rightarrow> (Fault m, [])
                 | Inr result \<Rightarrow> respond result)))"

definition get_status_v2 :: "env \<Rightarrow> string \<Rightarrow> outcome \<times> outbound list" where
  "get_status_v2 e donationId = respond (checkPaymentStatus_v2 e donationId)"

definition get_balance_v2 :: "env \<Rightarrow> json option \<Rightarrow> outcome \<times> outbound list" where
  "get_balance_v2 e token =
     (if \<not> truthy token then (Reply 400 (failure ''Token is required''), [])
      else respond (checkAccountBalance_v2 e token))"

section \<open>Notions used in the statements\<close>

text \<open>A number greater than zero.\<close>

definition positive :: "number \<Rightarrow> bool" where
  "positive x = (case x of Fin r \<Rightarrow> 0 < r | PInf \<Rightarrow> True | NInf \<Rightarrow> False)"

text \<open>
  The envelope of a reply: status 200 with \<^verbatim>\<open>success: true\<close>, or status 400 with
  \<^verbatim>\<open>success: false\<close>. A handler that sends nothing has no envelope.
\<close>

definition envelope_ok :: "outcome \<Rightarrow> bool" where
  "envelope_ok out =
     (case out of
        Reply st b \<Rightarrow>
          (st = 200 \<and> get_prop b ''success'' = Some (JBool True)) \<or>
          (st = 400 \<and> get_prop b ''success'' = Some (JBool False))
      | Fault m \<Rightarrow> False)"

text \<open>The \<^verbatim>\<open>qr_string\<close> of the donation record in a parsed upstream reply.\<close>

definition upstream_qr_string :: "json \<Rightarrow> json option" where
  "upstream_qr_string result =
     (case result of JNull \<Rightarrow> None | _ \<Rightarrow> opt_member (get_prop result ''data'') ''qr_string'')"

text \<open>
  What the statements about message texts ask of the libraries: an error they raise has
  a message, and the encoder's result is a data URL.
\<close>

definition messages_nonempty :: "env \<Rightarrow> bool" where
  "messages_nonempty e =
     ((\<forall>rq m. fetch e rq = Inl m \<longrightarrow> m \<noteq> []) \<and>
      (\<forall>rq r m. fetch e rq = Inr r \<and> body_text r = Inl m \<longrightarrow> m \<noteq> []) \<and>
      (\<forall>t m. json_parse e t = Inl m \<longrightarrow> m \<noteq> []) \<and>
      (\<forall>q opts m. toDataURL e q opts = Inl m \<longrightarrow> m \<noteq> []))"

definition encoder_data_url :: "env \<Rightarrow> bool" where
  "encoder_data_url e = (\<forall>q opts u. toDataURL e q opts = Inr u \<longrightarrow> take 5 u = ''data:'')"

text \<open>
  The outcome of a donation request handed to \<open>fetch\<close> as \<open>rq\<close>: a 200 reply marked
  successful that carries a non-empty data URL as \<^verbatim>\<open>data.qr_image\<close> and, as
  \<^verbatim>\<open>data.qr_string\<close>, the truthy \<^verbatim>\<open>qr_string\<close> of the upstream reply; or a 400 reply
  marked failed that carries a non-empty error text.
\<close>

definition qris_contract :: "env \<Rightarrow> outbound \<Rightarrow> outcome \<Rightarrow> bool" where
  "qris_contract e rq out =
     (case out of
        Fault m \<Rightarrow> False
      | Reply st b \<Rightarrow>
          (st = 200 \<and> get_prop b ''success'' = Some (JBool True) \<and>
           (\<exists>img. opt_member (get_prop b ''data'') ''qr_image'' = Some (JStr img) \<and>
                  img \<noteq> [] \<and> take 5 img = ''data:'') \<and>
           (\<exists>r result. fetch e rq = Inr r \<and> response_json e r = Inr result \<and>
                  truthy (upstream_qr_string result) \<and>
                  opt_member (get_prop b ''data'') ''qr_string'' = upstream_qr_string result)) \<or>
          (st = 400 \<and> get_prop b ''success'' = Some (JBool False) \<and>
           (\<exists>m. get_prop b ''error'' = Some (JStr m) \<and> m \<noteq> [])))"

subsection \<open>Sample libraries, requests and upstream replies\<close>

text \<open>
  An upstream that answers every request with \<open>answer\<close>, a parser whose result on the
  body of that answer is \<open>parsed\<close>, and an encoder that accepts a non-empty string.
\<close>

definition sample_encoder :: "json \<Rightarrow> qr_options \<Rightarrow> string + string" where
  "sample_encoder q opts =
     (case q of
        JStr s \<Rightarrow>
          if s = [] then Inl ''No input text''
          else Inr (''data:'' @ image_type opts @ '';base64,iVBORw0KGgo='')
      | _ \<Rightarrow> Inl ''Invalid data'')"

definition upstream_env :: "string + upstream_response \<Rightarrow> string + json \<Rightarrow> env" where
  "upstream_env answer parsed =
     \<lparr>fetch = (\<lambda>rq. answer),
      json_parse = (\<lambda>t. parsed),
      toDataURL = sample_encoder,
      now_iso = ''2025-01-15T10:30:00.000Z'',
      float_text = (\<lambda>r. ''0.5'')\<rparr>"

definition sample_donation :: json where
  "sample_donation =
     JObj [(''id'', JStr ''d1''),
           (''qr_string'', JStr ''00020101''),
           (''amount'', JNum (Fin 10000)),
           (''currency'', JStr ''IDR'')]"

definition sample_text :: string where
  \<open>sample_text = ''{"data":{"id":"d1","qr_string":"00020101","amount":10000,"currency":"IDR"}}''\<close>

definition paid_donation :: json where
  "paid_donation =
     JObj [(''id'', JStr ''d1''),
           (''qr_string'', JNull),
           (''paid_at'', JStr ''2025-01-15T10:40:00Z'')]"

definition paid_text :: string where
  \<open>paid_text = ''{"data":{"id":"d1","qr_string":null,"paid_at":"2025-01-15T10:40:00Z"}}''\<close>

definition imaged_donation :: json where
  "imaged_donation =
     JObj [(''id'', JStr ''d1''),
           (''qr_image'', JStr ''https://upstream.example/qr.png''),
           (''qr_string'', JStr ''00020101'')]"

definition imaged_text :: string where
  \<open>imaged_text =
     ''{"data":{"id":"d1","qr_image":"https://upstream.example/qr.png","qr_string":"00020101"}}''\<close>

definition null_data_text :: string where
  \<open>null_data_text = ''{"data":null}''\<close>

definition json_reply :: "string \<Rightarrow> upstream_response" where
  "json_reply t =
     \<lparr>status_code = 200,
      content_type = Some ''application/json; charset=utf-8'',
      body_text = Inr t\<rparr>"

definition html_reply :: upstream_response where
  "html_reply =
     \<lparr>status_code = 403,
      content_type = Some ''text/html; charset=UTF-8'',
      body_text = Inr ''<html><body>Forbidden</body></html>''\<rparr>"

definition html_parse_error :: string where
  "html_parse_error = ''Unexpected token < in JSON at position 0''"

text \<open>
  Bodies of \<^verbatim>\<open>POST /qris\<close>: a usual one, and ones whose amount is 0, negative, a
  fraction, and the infinity that \<^verbatim>\<open>1e400\<close> parses to.
\<close>

definition sample_request :: json where
  "sample_request = JObj [(''amount'', JNum (Fin 10000)), (''userId'', JStr ''abc'')]"

definition zero_request :: json where
  "zero_request = JObj [(''amount'', JNum (Fin 0)), (''userId'', JStr ''abc'')]"

definition negative_request :: json where
  "negative_request = JObj [(''amount'', JNum (Fin (- 5000))), (''userId'', JStr ''abc'')]"

definition half_request :: json where
  "half_request = JObj [(''amount'', JNum (Fin (1 / 2))), (''userId'', JStr ''abc'')]"

definition infinite_request :: json where
  "infinite_request = JObj [(''amount'', JNum PInf), (''userId'', JStr ''abc'')]"

text \<open>A body whose user id is an object with a \<^verbatim>\<open>toString\<close> property of its own.\<close>

definition stubborn_request :: json where
  "stubborn_request =
     JObj [(''amount'', JNum (Fin 10000)), (''userId'', JObj [(''toString'', JNum (Fin 1))])]"

text \<open>
  Upstreams that reply with an unpaid donation, with a paid one, with an HTML page that
  does not parse, with a donation that brings a \<^verbatim>\<open>qr_image\<close> of its own, and with
  \<^verbatim>\<open>data: null\<close>.
\<close>

definition pending_env :: env where
  "pending_env = upstream_env (Inr (json_reply sample_text)) (Inr (JObj [(''data'', sample_donation)]))"

definition paid_env :: env where
  "paid_env = upstream_env (Inr (json_reply paid_text)) (Inr (JObj [(''data'', paid_donation)]))"

definition html_env :: env where
  "html_env = upstream_env (Inr html_reply) (Inl html_parse_error)"

definition imaged_env :: env where
  "imaged_env = upstream_env (Inr (json_reply imaged_text)) (Inr (JObj [(''data'', imaged_donation)]))"

definition null_data_env :: env where
  "null_data_env = upstream_env (Inr (json_reply null_data_text)) (Inr (JObj [(''data'', JNull)]))"

section \<open>Properties\<close>

subsection \<open>Evaluation and basic facts\<close>

lemmas sample_defs =
  pending_env_def paid_env_def html_env_def imaged_env_def null_data_env_def upstream_env_def
  sample_encoder_def json_reply_def html_reply_def html_parse_error_def sample_donation_def
  paid_donation_def imaged_donation_def sample_request_def

lemmas run_defs =
  post_qris_def post_qris_v2_def get_status_def get_status_v2_def get_balance_def get_balance_v2_def
  generateQRIS_def generateQRIS_v2_def generateQRIS_try_def generateQRIS_try_v2_def
  generateQRIS_fetch_def generateQRIS_fetch_v2_def caught_def caught_v2_def
  checkPaymentStatus_def checkPaymentStatus_v2_def checkPaymentStatus_fetch_def
  checkAccountBalance_def checkAccountBalance_v2_def checkAccountBalance_try_v2_def
  checkAccountBalance_fetch_def
  qris_result_def status_result_def balance_result_def response_json_def respond_def
  member_def opt_member_def failure_def failure_v2_def not_json_def non_json_error_def qr_opts_def
  js_string_def

lemma respond_failure: "respond (failure m, cs) = (Reply 400 (failure m), cs)"
  by (simp add: respond_def failure_def)

lemma respond_failure_v2: "respond (failure_v2 e m, cs) = (Reply 400 (failure_v2 e m), cs)"
  by (simp add: respond_def failure_v2_def)

lemma respond_calls: "snd (respond rc) = snd rc"
  by (simp add: respond_def)

lemma caught_Inl: "caught (Inl m, cs) = (failure m, cs)"
  by (simp add: caught_def)

lemma caught_Inr: "caught (Inr r, cs) = (r, cs)"
  by (simp add: caught_def)

lemma caught_v2_Inl: "caught_v2 e (Inl m, cs) = (failure_v2 e m, cs)"
  by (simp add: caught_v2_def)

lemma caught_v2_Inr: "caught_v2 e (Inr r, cs) = (r, cs)"
  by (simp add: caught_v2_def)

lemma caught_calls: "snd (caught t) = snd t"
  by (simp add: caught_def)

lemma caught_v2_calls: "snd (caught_v2 e t) = snd t"
  by (simp add: caught_v2_def)

lemma get_prop_Some_object: "get_prop d k = Some q \<Longrightarrow> \<exists>fs. d = JObj fs"
  by (cases d) simp_all

lemma null_read_nonempty: "null_read k \<noteq> []"
  by (simp add: null_read_def)

lemma non_json_error_nonempty: "non_json_error e r t \<noteq> []"
  by (simp add: non_json_error_def)

text \<open>Conversions to string: a string and a number never throw, an object with its own \<^verbatim>\<open>toString\<close> does.\<close>

lemma js_string_text: "js_string e (Some (JStr u)) = Inr u"
  by (simp add: js_string_def)

lemma js_string_number: "js_string e (Some (JNum x)) = Inr (number_text e x)"
  by (simp add: js_string_def)

lemma js_string_own_toString:
  "map_of fs ''toString'' = Some f \<Longrightarrow> js_string e (Some (JObj fs)) = Inl no_primitive"
  by (simp add: js_string_def)

lemma number_text_integer:
  "\<bar>n\<bar> \<le> 9007199254740991 \<Longrightarrow> number_text e (Fin (of_int n)) = decimal n"
  by (simp add: number_text_def flip: of_int_abs)

text \<open>What \<^verbatim>\<open>JSON.stringify\<close> writes for a number.\<close>

lemma wire_finite: "wire (JNum (Fin r)) = JNum (Fin r)"
  by simp

lemma wire_infinite: "wire (JNum PInf) = JNull" "wire (JNum NInf) = JNull"
  by simp_all

subsection \<open>What the operations return\<close>

text \<open>
  \<^verbatim>\<open>generateQRIS\<close> succeeds exactly when the reply has an object \<^verbatim>\<open>data\<close> with a truthy
  \<^verbatim>\<open>qr_string\<close> that the encoder accepts.
\<close>

lemma qris_result_Inr:
  "qris_result e msg result = Inr b \<longleftrightarrow>
     (\<exists>fs q img. get_prop result ''data'' = Some (JObj fs) \<and> map_of fs ''qr_string'' = Some q \<and>
        truthy (Some q) \<and> toDataURL e q qr_opts = Inr img \<and>
        b = JObj [(''success'', JBool True),
                  (''data'', JObj (AList.update ''qr_image'' (JStr img) fs))])"
proof (cases result)
  case (JObj rs)
  show ?thesis
  proof (cases "map_of rs ''data''")
    case None
    with JObj show ?thesis by (simp add: qris_result_def member_def opt_member_def)
  next
    case (Some d)
    with JObj show ?thesis
      by (cases d) (auto simp: qris_result_def member_def opt_member_def split: option.splits sum.splits)
  qed
qed (simp_all add: qris_result_def member_def opt_member_def)

lemma qris_result_Inl:
  assumes "qris_result e msg result = Inl m"
  shows "(result = JNull \<and> m = null_read ''data'') \<or>
         (result \<noteq> JNull \<and> \<not> truthy (upstream_qr_string result) \<and> m = msg) \<or>
         (\<exists>q. upstream_qr_string result = Some q \<and> truthy (Some q) \<and> toDataURL e q qr_opts = Inl m)"
  using assms
  by (cases result)
     (auto simp: qris_result_def member_def upstream_qr_string_def split: option.splits sum.splits if_splits)

lemma qris_result_lacking:
  assumes "\<not> truthy (upstream_qr_string result)"
  shows "qris_result e msg result = Inl (if result = JNull then null_read ''data'' else msg)"
  using assms
  by (cases result)
     (auto simp: qris_result_def member_def upstream_qr_string_def split: option.splits sum.splits if_splits)

lemma qris_result_Inr_success: "qris_result e msg result = Inr b \<Longrightarrow> get_prop b ''success'' = Some (JBool True)"
  unfolding qris_result_Inr by auto

lemma qris_success_qr_string:
  assumes "qris_result e msg result = Inr b"
  shows "truthy (opt_member (get_prop b ''data'') ''qr_string'') \<and>
         upstream_qr_string result = opt_member (get_prop b ''data'') ''qr_string''"
proof -
  from assms obtain fs q img where
    d: "get_prop result ''data'' = Some (JObj fs)" and q: "map_of fs ''qr_string'' = Some q"
    and t: "truthy (Some q)"
    and b: "b = JObj [(''success'', JBool True), (''data'', JObj (AList.update ''qr_image'' (JStr img) fs))]"
    unfolding qris_result_Inr by blast
  from d q have "upstream_qr_string result = Some q"
    by (cases result) (simp_all add: upstream_qr_string_def opt_member_def)
  moreover from b q have "opt_member (get_prop b ''data'') ''qr_string'' = Some q"
    by (simp add: opt_member_def update_conv')
  ultimately show ?thesis using t by simp
qed

lemma qris_result_Inr_relay:
  assumes "fetch e rq = Inr r" "response_json e r = Inr result" "qris_result e msg result = Inr b"
  shows "\<exists>r result fs q img.
           fetch e rq = Inr r \<and> response_json e r = Inr result \<and>
           get_prop result ''data'' = Some (JObj fs) \<and> map_of fs ''qr_string'' = Some q \<and>
           toDataURL e q qr_opts = Inr img \<and>
           b = JObj [(''success'', JBool True),
                     (''data'', JObj (AList.update ''qr_image'' (JStr img) fs))] \<and>
           opt_member (get_prop b ''data'') ''qr_image'' = Some (JStr img) \<and>
           (\<forall>k. k \<noteq> ''qr_image'' \<longrightarrow> opt_member (get_prop b ''data'') k = map_of fs k)"
proof -
  from assms(3) obtain fs q img where
    d: "get_prop result ''data'' = Some (JObj fs)" and q: "map_of fs ''qr_string'' = Some q"
    and i: "toDataURL e q qr_opts = Inr img"
    and b: "b = JObj [(''success'', JBool True), (''data'', JObj (AList.update ''qr_image'' (JStr img) fs))]"
    unfolding qris_result_Inr by blast
  from b have g: "opt_member (get_prop b ''data'') ''qr_image'' = Some (JStr img)"
    by (simp add: opt_member_def update_conv')
  from b have k: "\<forall>k. k \<noteq> ''qr_image'' \<longrightarrow> opt_member (get_prop b ''data'') k = map_of fs k"
    by (simp add: opt_member_def update_conv')
  show ?thesis
    apply (rule exI [of _ r])
    apply (rule exI [of _ result])
    apply (rule exI [of _ fs])
    apply (rule exI [of _ q])
    apply (rule exI [of _ img])
    apply (intro conjI)
           apply (rule assms(1))
          apply (rule assms(2))
         apply (rule d)
        apply (rule q)
       apply (rule i)
      apply (rule b)
     apply (rule g)
    apply (rule k)
    done
qed

lemma generateQRIS_fetch_Inr:
  assumes "generateQRIS_fetch e rq = Inr b"
  shows "\<exists>r result. fetch e rq = Inr r \<and> response_json e r = Inr result \<and>
           qris_result e ''Failed to generate QRIS: No QR string in response'' result = Inr b"
  using assms by (auto simp: generateQRIS_fetch_def split: sum.splits)

lemma generateQRIS_fetch_v2_Inr:
  assumes "generateQRIS_fetch_v2 e rq = Inr b"
  shows "\<exists>r result. fetch e rq = Inr r \<and> \<not> not_json (content_type r) \<and> response_json e r = Inr result \<and>
           qris_result e ''No QR string in response'' result = Inr b"
  using assms by (auto simp: generateQRIS_fetch_v2_def split: sum.splits if_splits)

lemma checkPaymentStatus_fetch_Inr:
  "checkPaymentStatus_fetch e rq = Inr b \<Longrightarrow>
     \<exists>r result. fetch e rq = Inr r \<and> response_json e r = Inr result \<and> status_result result = Inr b"
  by (auto simp: checkPaymentStatus_fetch_def split: sum.splits)

lemma checkAccountBalance_fetch_Inr:
  "checkAccountBalance_fetch e rq = Inr b \<Longrightarrow>
     \<exists>r result. fetch e rq = Inr r \<and> response_json e r = Inr result \<and> balance_result result = Inr b"
  by (auto simp: checkAccountBalance_fetch_def split: sum.splits)

lemma status_result_Inr_success: "status_result result = Inr b \<Longrightarrow> get_prop b ''success'' = Some (JBool True)"
  by (cases result) (auto simp: status_result_def member_def split: option.splits if_splits)

lemma balance_result_Inr_success: "balance_result result = Inr b \<Longrightarrow> get_prop b ''success'' = Some (JBool True)"
  by (cases result) (auto simp: balance_result_def member_def split: option.splits if_splits)

text \<open>Every error message is non-empty when those of the libraries are.\<close>

lemma response_json_Inl_nonempty:
  "messages_nonempty e \<Longrightarrow> fetch e rq = Inr r \<Longrightarrow> response_json e r = Inl m \<Longrightarrow> m \<noteq> []"
  unfolding messages_nonempty_def response_json_def
  by (cases "body_text r") auto

lemma qris_result_Inl_nonempty:
  assumes "messages_nonempty e" "msg \<noteq> []" "qris_result e msg result = Inl m"
  shows "m \<noteq> []"
proof -
  from qris_result_Inl [OF assms(3)] consider
      (null) "m = null_read ''data''"
    | (none) "m = msg"
    | (enc) q where "toDataURL e q qr_opts = Inl m"
    by blast
  then show ?thesis
  proof cases
    case null
    then show ?thesis by (simp add: null_read_nonempty)
  next
    case none
    with assms(2) show ?thesis by simp
  next
    case enc
    with assms(1) show ?thesis unfolding messages_nonempty_def by blast
  qed
qed

lemma generateQRIS_fetch_Inl_nonempty:
  assumes "messages_nonempty e" "generateQRIS_fetch e rq = Inl m"
  shows "m \<noteq> []"
proof (cases "fetch e rq")
  case (Inl a)
  with assms show ?thesis by (auto simp: generateQRIS_fetch_def messages_nonempty_def)
next
  case (Inr r)
  show ?thesis
  proof (cases "response_json e r")
    case (Inl a)
    with Inr assms have "m = a" by (simp add: generateQRIS_fetch_def)
    with response_json_Inl_nonempty [OF assms(1) Inr Inl] show ?thesis by simp
  next
    case (Inr result)
    with \<open>fetch e rq = Inr r\<close> assms(2)
    have "qris_result e ''Failed to generate QRIS: No QR string in response'' result = Inl m"
      by (simp add: generateQRIS_fetch_def)
    then show ?thesis by (rule qris_result_Inl_nonempty [OF assms(1), rotated]) simp
  qed
qed

lemma generateQRIS_fetch_v2_Inl_nonempty:
  assumes "messages_nonempty e" "generateQRIS_fetch_v2 e rq = Inl m"
  shows "m \<noteq> []"
proof (cases "fetch e rq")
  case (Inl a)
  with assms show ?thesis by (auto simp: generateQRIS_fetch_v2_def messages_nonempty_def)
next
  case (Inr r)
  note fetched = this
  show ?thesis
  proof (cases "not_json (content_type r)")
    case True
    show ?thesis
    proof (cases "body_text r")
      case (Inl a)
      with True fetched assms show ?thesis
        by (auto simp: generateQRIS_fetch_v2_def messages_nonempty_def)
    next
      case (Inr t)
      with True fetched assms(2) show ?thesis
        by (auto simp: generateQRIS_fetch_v2_def non_json_error_nonempty)
    qed
  next
    case False
    show ?thesis
    proof (cases "response_json e r")
      case (Inl a)
      with False fetched assms have "m = a" by (simp add: generateQRIS_fetch_v2_def)
      with response_json_Inl_nonempty [OF assms(1) fetched Inl] show ?thesis by simp
    next
      case (Inr result)
      with False fetched assms(2)
      have "qris_result e ''No QR string in response'' result = Inl m"
        by (simp add: generateQRIS_fetch_v2_def)
      then show ?thesis by (rule qris_result_Inl_nonempty [OF assms(1), rotated]) simp
    qed
  qed
qed

text \<open>
  What \<^verbatim>\<open>POST /qris\<close> does with a request that passes the validation: it sends nothing
  when \<^verbatim>\<open>${userId}\<close> throws; in the second variant it replies 400 without calling
  \<^verbatim>\<open>fetch\<close> when \<^verbatim>\<open>${amount}\<close> throws; otherwise it hands one request to \<^verbatim>\<open>fetch\<close>. It
  replies 200 only when \<^verbatim>\<open>generateQRIS\<close> succeeded.
\<close>

lemma post_qris_forward:
  assumes "truthy (get_prop body ''amount'')" "truthy (get_prop body ''userId'')"
    and "js_string e (get_prop body ''userId'') = Inr uid"
  shows "post_qris e body =
           respond (caught (generateQRIS_fetch e (qris_request (get_prop body ''amount'') uid),
                            [qris_request (get_prop body ''amount'') uid]))"
  using assms by (cases body) (simp_all add: post_qris_def generateQRIS_def generateQRIS_try_def Let_def)

lemma post_qris_v2_forward:
  assumes "truthy (get_prop body ''amount'')" "truthy (get_prop body ''userId'')"
    and "js_string e (get_prop body ''userId'') = Inr uid"
    and "js_string e (get_prop body ''amount'') = Inr a"
  shows "post_qris_v2 e body =
           respond (caught_v2 e (generateQRIS_fetch_v2 e (qris_request_v2 (get_prop body ''amount'') uid),
                                 [qris_request_v2 (get_prop body ''amount'') uid]))"
  using assms by (cases body) (simp_all add: post_qris_v2_def generateQRIS_v2_def generateQRIS_try_v2_def Let_def)

lemma post_qris_unconvertible_userId:
  assumes "truthy (get_prop body ''amount'')" "truthy (get_prop body ''userId'')"
    and "js_string e (get_prop body ''userId'') = Inl m"
  shows "post_qris e body = (Fault m, [])" and "post_qris_v2 e body = (Fault m, [])"
  using assms
  by (cases body; simp add: post_qris_def post_qris_v2_def generateQRIS_def generateQRIS_v2_def)+

lemma post_qris_v2_unconvertible_amount:
  assumes "truthy (get_prop body ''amount'')" "truthy (get_prop body ''userId'')"
    and "js_string e (get_prop body ''userId'') = Inr uid"
    and "js_string e (get_prop body ''amount'') = Inl m"
  shows "post_qris_v2 e body = (Reply 400 (failure_v2 e m), [])"
  using assms
  by (cases body)
     (simp_all add: post_qris_v2_def generateQRIS_v2_def generateQRIS_try_v2_def caught_v2_Inl
        respond_failure_v2)

lemma post_qris_200:
  assumes "fst (post_qris e body) = Reply 200 b"
  shows "\<exists>uid. js_string e (get_prop body ''userId'') = Inr uid \<and>
           generateQRIS_fetch e (qris_request (get_prop body ''amount'') uid) = Inr b"
proof -
  have v: "truthy (get_prop body ''amount'')" "truthy (get_prop body ''userId'')"
    using assms by (cases body; auto simp: post_qris_def Let_def split: if_splits)+
  show ?thesis
  proof (cases "js_string e (get_prop body ''userId'')")
    case (Inl m)
    from post_qris_unconvertible_userId(1) [OF v Inl] assms show ?thesis by simp
  next
    case (Inr uid)
    from post_qris_forward [OF v Inr] assms
    have "generateQRIS_fetch e (qris_request (get_prop body ''amount'') uid) = Inr b"
      by (cases "generateQRIS_fetch e (qris_request (get_prop body ''amount'') uid)")
         (auto simp: caught_def respond_def failure_def split: if_splits)
    with Inr show ?thesis by simp
  qed
qed

lemma post_qris_v2_200:
  assumes "fst (post_qris_v2 e body) = Reply 200 b"
  shows "\<exists>uid. js_string e (get_prop body ''userId'') = Inr uid \<and>
           generateQRIS_fetch_v2 e (qris_request_v2 (get_prop body ''amount'') uid) = Inr b"
proof -
  have v: "truthy (get_prop body ''amount'')" "truthy (get_prop body ''userId'')"
    using assms by (cases body; auto simp: post_qris_v2_def Let_def split: if_splits)+
  show ?thesis
  proof (cases "js_string e (get_prop body ''userId'')")
    case (Inl m)
    from post_qris_unconvertible_userId(2) [OF v Inl] assms show ?thesis by simp
  next
    case (Inr uid)
    note uid = this
    show ?thesis
    proof (cases "js_string e (get_prop body ''amount'')")
      case (Inl m)
      from post_qris_v2_unconvertible_amount [OF v uid Inl] assms show ?thesis by simp
    next
      case (Inr a)
      from post_qris_v2_forward [OF v uid Inr] assms
      have "generateQRIS_fetch_v2 e (qris_request_v2 (get_prop body ''amount'') uid) = Inr b"
        by (cases "generateQRIS_fetch_v2 e (qris_request_v2 (get_prop body ''amount'') uid)")
           (auto simp: caught_v2_def respond_def failure_v2_def split: if_splits)
      with uid show ?thesis by simp
    qed
  qed
qed

lemma qris_success_contract:
  assumes "fetch e rq = Inr r" "response_json e r = Inr result" "qris_result e msg result = Inr b"
    and "encoder_data_url e"
  shows "qris_contract e rq (Reply 200 b)"
proof -
  from assms(3) obtain fs q img where
    d: "get_prop result ''data'' = Some (JObj fs)" and q: "map_of fs ''qr_string'' = Some q"
    and t: "truthy (Some q)" and i: "toDataURL e q qr_opts = Inr img"
    and b: "b = JObj [(''success'', JBool True), (''data'', JObj (AList.update ''qr_image'' (JStr img) fs))]"
    unfolding qris_result_Inr by blast
  from i assms(4) have u: "take 5 img = ''data:''" unfolding encoder_data_url_def by blast
  then have ne: "img \<noteq> []" by auto
  from d have nn: "result \<noteq> JNull" by auto
  from d nn q have uq: "upstream_qr_string result = Some q"
    by (cases result) (simp_all add: upstream_qr_string_def opt_member_def)
  show ?thesis
    unfolding qris_contract_def
    using assms(1,2) b u ne uq t
    by (auto simp: opt_member_def update_conv' q)
qed

text \<open>Envelopes of the replies.\<close>

lemma envelope_failure: "envelope_ok (fst (respond (failure m, cs)))"
  by (simp add: respond_def envelope_ok_def failure_def)

lemma envelope_failure_v2: "envelope_ok (fst (respond (failure_v2 e m, cs)))"
  by (simp add: respond_def envelope_ok_def failure_v2_def)

lemma envelope_success: "get_prop b ''success'' = Some (JBool True) \<Longrightarrow> envelope_ok (fst (respond (b, cs)))"
  by (simp add: respond_def envelope_ok_def)

lemma envelope_validation: "envelope_ok (Reply 400 (failure m))"
  by (simp add: envelope_ok_def failure_def)

lemma envelope_caught_qris: "envelope_ok (fst (respond (caught (generateQRIS_fetch e rq, cs))))"
proof (cases "generateQRIS_fetch e rq")
  case (Inl m)
  then show ?thesis by (simp add: caught_Inl envelope_failure)
next
  case (Inr b)
  from generateQRIS_fetch_Inr [OF Inr] have "get_prop b ''success'' = Some (JBool True)"
    by (auto dest: qris_result_Inr_success)
  with Inr show ?thesis by (simp add: caught_Inr envelope_success)
qed

lemma envelope_caught_qris_v2: "envelope_ok (fst (respond (caught_v2 e (generateQRIS_fetch_v2 e rq, cs))))"
proof (cases "generateQRIS_fetch_v2 e rq")
  case (Inl m)
  then show ?thesis by (simp add: caught_v2_Inl envelope_failure_v2)
next
  case (Inr b)
  from generateQRIS_fetch_v2_Inr [OF Inr] have "get_prop b ''success'' = Some (JBool True)"
    by (auto dest: qris_result_Inr_success)
  with Inr show ?thesis by (simp add: caught_v2_Inr envelope_success)
qed

lemma envelope_caught_status: "envelope_ok (fst (respond (caught (checkPaymentStatus_fetch e rq, cs))))"
proof (cases "checkPaymentStatus_fetch e rq")
  case (Inl m)
  then show ?thesis by (simp add: caught_Inl envelope_failure)
next
  case (Inr b)
  from checkPaymentStatus_fetch_Inr [OF Inr] have "get_prop b ''success'' = Some (JBool True)"
    by (auto dest: status_result_Inr_success)
  with Inr show ?thesis by (simp add: caught_Inr envelope_success)
qed

lemma envelope_caught_balance: "envelope_ok (fst (respond (caught (checkAccountBalance_fetch e rq, cs))))"
proof (cases "checkAccountBalance_fetch e rq")
  case (Inl m)
  then show ?thesis by (simp add: caught_Inl envelope_failure)
next
  case (Inr b)
  from checkAccountBalance_fetch_Inr [OF Inr] have "get_prop b ''success'' = Some (JBool True)"
    by (auto dest: balance_result_Inr_success)
  with Inr show ?thesis by (simp add: caught_Inr envelope_success)
qed

lemma envelope_balance_v2: "envelope_ok (fst (respond (checkAccountBalance_v2 e token)))"
  by (cases "js_string e token")
     (simp_all add: checkAccountBalance_v2_def checkAccountBalance_try_v2_def Let_def caught_Inl
        envelope_failure envelope_caught_balance)

text \<open>The sample libraries raise errors with a message and encode to a data URL.\<close>

lemma pending_env_libraries: "messages_nonempty pending_env \<and> encoder_data_url pending_env"
  by (auto simp: messages_nonempty_def encoder_data_url_def sample_defs split: json.splits if_splits)

subsection \<open>Creating a QRIS payment\<close>

text \<open>
  C1. For a \<^verbatim>\<open>POST /qris\<close> with a positive amount and a non-empty user id, both variants
  reply either with status 200, \<^verbatim>\<open>success: true\<close>, a non-empty data URL as
  \<^verbatim>\<open>data.qr_image\<close> and a \<^verbatim>\<open>data.qr_string\<close> equal to the one of the upstream donation
  record, or with status 400, \<^verbatim>\<open>success: false\<close> and a non-empty error text: no reply
  lacks both the image and the error. The texts that come from the libraries (the
  messages of the errors they raise, the encoder's data URL) are non-empty by hypothesis.
\<close>

theorem qris_valid_request_outcome:
  assumes amount: "get_prop body ''amount'' = Some (JNum x)" "positive x"
    and userId: "get_prop body ''userId'' = Some (JStr u)" "u \<noteq> []"
    and libs: "messages_nonempty e" "encoder_data_url e"
  shows "qris_contract e (qris_request (Some (JNum x)) u) (fst (post_qris e body)) \<and>
         qris_contract e (qris_request_v2 (Some (JNum x)) u) (fst (post_qris_v2 e body))"
proof
  let ?rq = "qris_request (Some (JNum x)) u"
  from amount have ta: "truthy (get_prop body ''amount'')"
    by (cases x) (auto simp: positive_def)
  from userId have tu: "truthy (get_prop body ''userId'')" by simp
  from userId(1) have cu: "js_string e (get_prop body ''userId'') = Inr u"
    by (simp add: js_string_text)
  from post_qris_forward [OF ta tu cu] amount(1)
  have p: "post_qris e body = respond (caught (generateQRIS_fetch e ?rq, [?rq]))" by simp
  show "qris_contract e ?rq (fst (post_qris e body))"
  proof (cases "generateQRIS_fetch e ?rq")
    case (Inl m)
    with libs(1) have "m \<noteq> []" by (rule generateQRIS_fetch_Inl_nonempty)
    moreover from Inl p have "fst (post_qris e body) = Reply 400 (failure m)"
      by (simp add: caught_Inl respond_failure)
    ultimately show ?thesis
      by (simp add: qris_contract_def failure_def)
  next
    case (Inr b)
    from generateQRIS_fetch_Inr [OF Inr] obtain r result where
      f: "fetch e ?rq = Inr r" and j: "response_json e r = Inr result"
      and q: "qris_result e ''Failed to generate QRIS: No QR string in response'' result = Inr b"
      by blast
    from q have s: "get_prop b ''success'' = Some (JBool True)"
      by (rule qris_result_Inr_success)
    with Inr p have "fst (post_qris e body) = Reply 200 b"
      by (simp add: caught_Inr respond_def)
    with qris_success_contract [OF f j q libs(2)] show ?thesis by simp
  qed
next
  let ?rq = "qris_request_v2 (Some (JNum x)) u"
  from amount have ta: "truthy (get_prop body ''amount'')"
    by (cases x) (auto simp: positive_def)
  from userId have tu: "truthy (get_prop body ''userId'')" by simp
  from userId(1) have cu: "js_string e (get_prop body ''userId'') = Inr u"
    by (simp add: js_string_text)
  from amount(1) have ca: "js_string e (get_prop body ''amount'') = Inr (number_text e x)"
    by (simp add: js_string_number)
  from post_qris_v2_forward [OF ta tu cu ca] amount(1)
  have p: "post_qris_v2 e body = respond (caught_v2 e (generateQRIS_fetch_v2 e ?rq, [?rq]))" by simp
  show "qris_contract e ?rq (fst (post_qris_v2 e body))"
  proof (cases "generateQRIS_fetch_v2 e ?rq")
    case (Inl m)
    with libs(1) have "m \<noteq> []" by (rule generateQRIS_fetch_v2_Inl_nonempty)
    moreover from Inl p have "fst (post_qris_v2 e body) = Reply 400 (failure_v2 e m)"
      by (simp add: caught_v2_Inl respond_failure_v2)
    ultimately show ?thesis
      by (simp add: qris_contract_def failure_v2_def)
  next
    case (Inr b)
    from generateQRIS_fetch_v2_Inr [OF Inr] obtain r result where
      f: "fetch e ?rq = Inr r" and j: "response_json e r = Inr result"
      and q: "qris_result e ''No QR string in response'' result = Inr b"
      by blast
    from q have s: "get_prop b ''success'' = Some (JBool True)"
      by (rule qris_result_Inr_success)
    with Inr p have "fst (post_qris_v2 e body) = Reply 200 b"
      by (simp add: caught_v2_Inr respond_def)
    with qris_success_contract [OF f j q libs(2)] show ?thesis by simp
  qed
qed

theorem qris_valid_request_outcome_witness:
  "fst (post_qris pending_env sample_request) =
     Reply 200 (JObj [(''success'', JBool True),
                      (''data'', JObj [(''id'', JStr ''d1''),
                                       (''qr_string'', JStr ''00020101''),
                                       (''amount'', JNum (Fin 10000)),
                                       (''currency'', JStr ''IDR''),
                                       (''qr_image'', JStr ''data:image/png;base64,iVBORw0KGgo='')])]) \<and>
   qris_contract pending_env (qris_request (Some (JNum (Fin 10000))) ''abc'')
     (fst (post_qris pending_env sample_request)) \<and>
   qris_contract pending_env (qris_request_v2 (Some (JNum (Fin 10000))) ''abc'')
     (fst (post_qris_v2 pending_env sample_request))"
proof -
  have a: "get_prop sample_request ''amount'' = Some (JNum (Fin 10000))"
    and u: "get_prop sample_request ''userId'' = Some (JStr ''abc'')"
    by (simp_all add: sample_request_def)
  have p: "positive (Fin 10000)" and n: "''abc'' \<noteq> []" by (simp_all add: positive_def)
  note libs = pending_env_libraries
  have "fst (post_qris pending_env sample_request) =
     Reply 200 (JObj [(''success'', JBool True),
                      (''data'', JObj [(''id'', JStr ''d1''),
                                       (''qr_string'', JStr ''00020101''),
                                       (''amount'', JNum (Fin 10000)),
                                       (''currency'', JStr ''IDR''),
                                       (''qr_image'', JStr ''data:image/png;base64,iVBORw0KGgo='')])])"
    by (simp add: run_defs sample_defs)
  with qris_valid_request_outcome [OF a p u n libs [THEN conjunct1] libs [THEN conjunct2]]
  show ?thesis by simp
qed

text \<open>
  C3. A \<^verbatim>\<open>POST /qris\<close> whose body lacks \<^verbatim>\<open>amount\<close> or \<^verbatim>\<open>userId\<close> is answered, in both
  variants, with exactly status 400 and the body
  \<^verbatim>\<open>{success: false, error: "Amount and userId are required"}\<close>, and nothing is handed to
  \<^verbatim>\<open>fetch\<close>. (The body is what \<^verbatim>\<open>bodyParser.json()\<close> delivers, never \<^verbatim>\<open>null\<close>.)
\<close>

theorem qris_missing_field_rejected:
  assumes "body \<noteq> JNull"
    and "get_prop body ''amount'' = None \<or> get_prop body ''userId'' = None"
  shows "post_qris e body =
           (Reply 400 (JObj [(''success'', JBool False),
                             (''error'', JStr ''Amount and userId are required'')]), []) \<and>
         post_qris_v2 e body =
           (Reply 400 (JObj [(''success'', JBool False),
                             (''error'', JStr ''Amount and userId are required'')]), [])"
  using assms by (cases body) (auto simp: post_qris_def post_qris_v2_def failure_def)

theorem qris_missing_field_rejected_witness:
  "post_qris pending_env (JObj [(''userId'', JStr ''abc'')]) =
     (Reply 400 (JObj [(''success'', JBool False),
                       (''error'', JStr ''Amount and userId are required'')]), []) \<and>
   post_qris_v2 pending_env (JObj [(''userId'', JStr ''abc'')]) =
     (Reply 400 (JObj [(''success'', JBool False),
                       (''error'', JStr ''Amount and userId are required'')]), [])"
  using qris_missing_field_rejected [of "JObj [(''userId'', JStr ''abc'')]" pending_env]
  by simp

text \<open>
  C6. When a \<^verbatim>\<open>POST /qris\<close> that passed the validation reached the upstream (the
  conversions to string before the call of \<^verbatim>\<open>fetch\<close> did not throw) and the upstream's
  reply parses as JSON but has no truthy \<^verbatim>\<open>data.qr_string\<close>, \<^verbatim>\<open>generateQRIS\<close> throws and
  the handler replies with status 400, \<^verbatim>\<open>success: false\<close> and the message of the error:
  the fixed text about the missing QR string, or the runtime's text when the reply is
  \<^verbatim>\<open>null\<close>; in the second variant, the message about a reply that is not JSON when the
  content type of the reply is not JSON. No reply has status 200 without a truthy
  \<^verbatim>\<open>data.qr_string\<close>, which is the upstream's.
\<close>

theorem qris_missing_qr_string_rejected:
  assumes "truthy (get_prop body ''amount'')" and "truthy (get_prop body ''userId'')"
  shows "(\<forall>uid r result.
            js_string e (get_prop body ''userId'') = Inr uid \<and>
            fetch e (qris_request (get_prop body ''amount'') uid) = Inr r \<and>
            response_json e r = Inr result \<and> \<not> truthy (upstream_qr_string result) \<longrightarrow>
            post_qris e body =
              (Reply 400 (JObj [(''success'', JBool False),
                                (''error'', JStr (if result = JNull then null_read ''data''
                                     else ''Failed to generate QRIS: No QR string in response''))]),
               [qris_request (get_prop body ''amount'') uid])) \<and>
         (\<forall>uid a r t result.
            js_string e (get_prop body ''userId'') = Inr uid \<and>
            js_string e (get_prop body ''amount'') = Inr a \<and>
            fetch e (qris_request_v2 (get_prop body ''amount'') uid) = Inr r \<and>
            body_text r = Inr t \<and> json_parse e t = Inr result \<and>
            \<not> truthy (upstream_qr_string result) \<longrightarrow>
            post_qris_v2 e body =
              (Reply 400 (JObj [(''success'', JBool False),
                                (''error'', JStr (if not_json (content_type r) then non_json_error e r t
                                     else if result = JNull then null_read ''data''
                                     else ''No QR string in response'')),
                                (''timestamp'', JStr (now_iso e))]),
               [qris_request_v2 (get_prop body ''amount'') uid])) \<and>
         (\<forall>b. fst (post_qris e body) = Reply 200 b \<longrightarrow>
            truthy (opt_member (get_prop b ''data'') ''qr_string'') \<and>
            (\<exists>uid r result.
               js_string e (get_prop body ''userId'') = Inr uid \<and>
               fetch e (qris_request (get_prop body ''amount'') uid) = Inr r \<and>
               response_json e r = Inr result \<and>
               upstream_qr_string result = opt_member (get_prop b ''data'') ''qr_string'')) \<and>
         (\<forall>b. fst (post_qris_v2 e body) = Reply 200 b \<longrightarrow>
            truthy (opt_member (get_prop b ''data'') ''qr_string'') \<and>
            (\<exists>uid r result.
               js_string e (get_prop body ''userId'') = Inr uid \<and>
               fetch e (qris_request_v2 (get_prop body ''amount'') uid) = Inr r \<and>
               response_json e r = Inr result \<and>
               upstream_qr_string result = opt_member (get_prop b ''data'') ''qr_string''))"
proof (intro conjI allI impI)
  fix uid r result
  assume h: "js_string e (get_prop body ''userId'') = Inr uid \<and>
            fetch e (qris_request (get_prop body ''amount'') uid) = Inr r \<and>
            response_json e r = Inr result \<and> \<not> truthy (upstream_qr_string result)"
  then have "generateQRIS_fetch e (qris_request (get_prop body ''amount'') uid) =
      Inl (if result = JNull then null_read ''data'' else ''Failed to generate QRIS: No QR string in response'')"
    by (simp add: generateQRIS_fetch_def qris_result_lacking)
  with h post_qris_forward [OF assms, of e uid]
  have "post_qris e body =
      (Reply 400 (failure (if result = JNull then null_read ''data''
                           else ''Failed to generate QRIS: No QR string in response'')),
       [qris_request (get_prop body ''amount'') uid])"
    by (simp add: caught_Inl respond_failure)
  then show "post_qris e body =
              (Reply 400 (JObj [(''success'', JBool False),
                                (''error'', JStr (if result = JNull then null_read ''data''
                                     else ''Failed to generate QRIS: No QR string in response''))]),
               [qris_request (get_prop body ''amount'') uid])"
    by (simp add: failure_def)
next
  fix uid a r t result
  assume h: "js_string e (get_prop body ''userId'') = Inr uid \<and>
            js_string e (get_prop body ''amount'') = Inr a \<and>
            fetch e (qris_request_v2 (get_prop body ''amount'') uid) = Inr r \<and>
            body_text r = Inr t \<and> json_parse e t = Inr result \<and>
            \<not> truthy (upstream_qr_string result)"
  then have "generateQRIS_fetch_v2 e (qris_request_v2 (get_prop body ''amount'') uid) =
      Inl (if not_json (content_type r) then non_json_error e r t
           else if result = JNull then null_read ''data'' else ''No QR string in response'')"
    by (simp add: generateQRIS_fetch_v2_def response_json_def qris_result_lacking)
  with h post_qris_v2_forward [OF assms, of e uid a]
  have "post_qris_v2 e body =
      (Reply 400 (failure_v2 e (if not_json (content_type r) then non_json_error e r t
           else if result = JNull then null_read ''data'' else ''No QR string in response'')),
       [qris_request_v2 (get_prop body ''amount'') uid])"
    by (simp add: caught_v2_Inl respond_failure_v2)
  then show "post_qris_v2 e body =
              (Reply 400 (JObj [(''success'', JBool False),
                                (''error'', JStr (if not_json (content_type r) then non_json_error e r t
                                     else if result = JNull then null_read ''data''
                                     else ''No QR string in response'')),
                                (''timestamp'', JStr (now_iso e))]),
               [qris_request_v2 (get_prop body ''amount'') uid])"
    by (simp add: failure_v2_def)
next
  fix b
  assume "fst (post_qris e body) = Reply 200 b"
  from post_qris_200 [OF this] obtain uid where
    u: "js_string e (get_prop body ''userId'') = Inr uid"
    and g: "generateQRIS_fetch e (qris_request (get_prop body ''amount'') uid) = Inr b"
    by (elim exE conjE)
  from g obtain r result where
    f: "fetch e (qris_request (get_prop body ''amount'') uid) = Inr r"
    and j: "response_json e r = Inr result"
    and q: "qris_result e ''Failed to generate QRIS: No QR string in response'' result = Inr b"
    by (drule_tac generateQRIS_fetch_Inr) (elim exE conjE)
  from qris_success_qr_string [OF q]
  show "truthy (opt_member (get_prop b ''data'') ''qr_string'')" by simp
  from qris_success_qr_string [OF q] u f j
  show "\<exists>uid r result.
               js_string e (get_prop body ''userId'') = Inr uid \<and>
               fetch e (qris_request (get_prop body ''amount'') uid) = Inr r \<and>
               response_json e r = Inr result \<and>
               upstream_qr_string result = opt_member (get_prop b ''data'') ''qr_string''"
    by (intro exI [of _ uid] exI [of _ r] exI [of _ result]) simp
next
  fix b
  assume "fst (post_qris_v2 e body) = Reply 200 b"
  from post_qris_v2_200 [OF this] obtain uid where
    u: "js_string e (get_prop body ''userId'') = Inr uid"
    and g: "generateQRIS_fetch_v2 e (qris_request_v2 (get_prop body ''amount'') uid) = Inr b"
    by (elim exE conjE)
  from g obtain r result where
    f: "fetch e (qris_request_v2 (get_prop body ''amount'') uid) = Inr r"
    and j: "response_json e r = Inr result"
    and q: "qris_result e ''No QR string in response'' result = Inr b"
    by (drule_tac generateQRIS_fetch_v2_Inr) (elim exE conjE)
  from qris_success_qr_string [OF q]
  show "truthy (opt_member (get_prop b ''data'') ''qr_string'')" by simp
  from qris_success_qr_string [OF q] u f j
  show "\<exists>uid r result.
               js_string e (get_prop body ''userId'') = Inr uid \<and>
               fetch e (qris_request_v2 (get_prop body ''amount'') uid) = Inr r \<and>
               response_json e r = Inr result \<and>
               upstream_qr_string result = opt_member (get_prop b ''data'') ''qr_string''"
    by (intro exI [of _ uid] exI [of _ r] exI [of _ result]) simp
qed

theorem qris_missing_qr_string_rejected_witness:
  "post_qris paid_env sample_request =
     (Reply 400 (JObj [(''success'', JBool False),
                       (''error'', JStr ''Failed to generate QRIS: No QR string in response'')]),
      [qris_request (Some (JNum (Fin 10000))) ''abc'']) \<and>
   post_qris_v2 paid_env sample_request =
     (Reply 400 (JObj [(''success'', JBool False),
                       (''error'', JStr ''No QR string in response''),
                       (''timestamp'', JStr ''2025-01-15T10:30:00.000Z'')]),
      [qris_request_v2 (Some (JNum (Fin 10000))) ''abc'']) \<and>
   truthy (opt_member (get_prop (JObj [(''success'', JBool True),
                      (''data'', JObj [(''id'', JStr ''d1''),
                                       (''qr_string'', JStr ''00020101''),
                                       (''amount'', JNum (Fin 10000)),
                                       (''currency'', JStr ''IDR''),
                                       (''qr_image'', JStr ''data:image/png;base64,iVBORw0KGgo='')])]) ''data'') ''qr_string'')"
proof -
  have a: "truthy (get_prop sample_request ''amount'')"
    and u: "truthy (get_prop sample_request ''userId'')"
    by (simp_all add: sample_request_def)
  have ga: "get_prop sample_request ''amount'' = Some (JNum (Fin 10000))"
    and gu: "get_prop sample_request ''userId'' = Some (JStr ''abc'')"
    by (simp_all add: sample_request_def)
  have cu: "js_string paid_env (get_prop sample_request ''userId'') = Inr ''abc''"
    by (simp add: gu js_string_text)
  have ca: "js_string paid_env (get_prop sample_request ''amount'') = Inr (number_text paid_env (Fin 10000))"
    by (simp add: ga js_string_number)
  have j: "response_json paid_env (json_reply paid_text) = Inr (JObj [(''data'', paid_donation)])"
    by (simp add: response_json_def paid_env_def upstream_env_def json_reply_def)
  have b: "body_text (json_reply paid_text) = Inr paid_text"
    by (simp add: json_reply_def)
  have p: "json_parse paid_env t = Inr (JObj [(''data'', paid_donation)])" for t
    by (simp add: paid_env_def upstream_env_def)
  have l: "\<not> truthy (upstream_qr_string (JObj [(''data'', paid_donation)]))"
    by (simp add: upstream_qr_string_def opt_member_def paid_donation_def)
  have c: "\<not> not_json (content_type (json_reply paid_text))"
    by (simp add: not_json_def json_reply_def)
  have f: "fetch paid_env rq = Inr (json_reply paid_text)" for rq
    by (simp add: paid_env_def upstream_env_def)
  have t: "now_iso paid_env = ''2025-01-15T10:30:00.000Z''"
    by (simp add: paid_env_def upstream_env_def)
  note th = qris_missing_qr_string_rejected [OF a u, of paid_env]
  from th [THEN conjunct1, rule_format, of "''abc''" "json_reply paid_text" "JObj [(''data'', paid_donation)]"]
    cu f j l ga
  have 1: "post_qris paid_env sample_request =
     (Reply 400 (JObj [(''success'', JBool False),
                       (''error'', JStr ''Failed to generate QRIS: No QR string in response'')]),
      [qris_request (Some (JNum (Fin 10000))) ''abc''])"
    by simp
  from th [THEN conjunct2, THEN conjunct1, rule_format,
      of "''abc''" "number_text paid_env (Fin 10000)" "json_reply paid_text" paid_text
         "JObj [(''data'', paid_donation)]"]
    cu ca f b p l c ga t
  have 2: "post_qris_v2 paid_env sample_request =
     (Reply 400 (JObj [(''success'', JBool False),
                       (''error'', JStr ''No QR string in response''),
                       (''timestamp'', JStr ''2025-01-15T10:30:00.000Z'')]),
      [qris_request_v2 (Some (JNum (Fin 10000))) ''abc''])"
    by simp
  have p: "fst (post_qris pending_env sample_request) =
     Reply 200 (JObj [(''success'', JBool True),
                      (''data'', JObj [(''id'', JStr ''d1''),
                                       (''qr_string'', JStr ''00020101''),
                                       (''amount'', JNum (Fin 10000)),
                                       (''currency'', JStr ''IDR''),
                                       (''qr_image'', JStr ''data:image/png;base64,iVBORw0KGgo='')])])"
    by (simp add: run_defs sample_defs)
  from qris_missing_qr_string_rejected [OF a u, of pending_env, THEN conjunct2, THEN conjunct2,
      THEN conjunct1, rule_format, OF p]
  have 3: "truthy (opt_member (get_prop (JObj [(''success'', JBool True),
                      (''data'', JObj [(''id'', JStr ''d1''),
                                       (''qr_string'', JStr ''00020101''),
                                       (''amount'', JNum (Fin 10000)),
                                       (''currency'', JStr ''IDR''),
                                       (''qr_image'', JStr ''data:image/png;base64,iVBORw0KGgo='')])]) ''data'') ''qr_string'')"
    by (rule conjunct1)
  from 1 2 3 show ?thesis by (intro conjI)
qed

text \<open>
  C9, as amended. The validation of \<^verbatim>\<open>POST /qris\<close> treats every falsy amount as absent:
  with the amount 0 the reply is exactly status 400 with
  \<^verbatim>\<open>{success: false, error: "Amount and userId are required"}\<close> and nothing is handed to
  \<^verbatim>\<open>fetch\<close>. Every other number passes, negative ones and fractions too: given a user
  id that passes and converts to a string, exactly one donation is sent upstream, with
  the amount itself when it is finite and with \<^verbatim>\<open>null\<close> when it is an infinity.
\<close>

theorem qris_amount_truthiness:
  assumes "body \<noteq> JNull"
  shows "(\<not> truthy (get_prop body ''amount'') \<longrightarrow>
            post_qris e body =
              (Reply 400 (JObj [(''success'', JBool False),
                                (''error'', JStr ''Amount and userId are required'')]), []) \<and>
            post_qris_v2 e body =
              (Reply 400 (JObj [(''success'', JBool False),
                                (''error'', JStr ''Amount and userId are required'')]), [])) \<and>
         (get_prop body ''amount'' = Some (JNum (Fin 0)) \<longrightarrow>
            post_qris e body =
              (Reply 400 (JObj [(''success'', JBool False),
                                (''error'', JStr ''Amount and userId are required'')]), []) \<and>
            post_qris_v2 e body =
              (Reply 400 (JObj [(''success'', JBool False),
                                (''error'', JStr ''Amount and userId are required'')]), [])) \<and>
         (\<forall>x uid. x \<noteq> Fin 0 \<and> get_prop body ''amount'' = Some (JNum x) \<and>
              truthy (get_prop body ''userId'') \<and> js_string e (get_prop body ''userId'') = Inr uid \<longrightarrow>
            snd (post_qris e body) = [qris_request (Some (JNum x)) uid] \<and>
            snd (post_qris_v2 e body) = [qris_request_v2 (Some (JNum x)) uid] \<and>
            opt_member (payload (qris_request (Some (JNum x)) uid)) ''amount'' =
              Some (case x of Fin r \<Rightarrow> JNum (Fin r) | PInf \<Rightarrow> JNull | NInf \<Rightarrow> JNull) \<and>
            opt_member (payload (qris_request_v2 (Some (JNum x)) uid)) ''amount'' =
              Some (case x of Fin r \<Rightarrow> JNum (Fin r) | PInf \<Rightarrow> JNull | NInf \<Rightarrow> JNull))"
proof -
  have falsy: "post_qris e body =
      (Reply 400 (JObj [(''success'', JBool False), (''error'', JStr ''Amount and userId are required'')]), []) \<and>
      post_qris_v2 e body =
      (Reply 400 (JObj [(''success'', JBool False), (''error'', JStr ''Amount and userId are required'')]), [])"
    if "\<not> truthy (get_prop body ''amount'')"
    using assms that by (cases body) (simp_all add: post_qris_def post_qris_v2_def failure_def)
  have forwarded: "snd (post_qris e body) = [qris_request (Some (JNum x)) uid] \<and>
      snd (post_qris_v2 e body) = [qris_request_v2 (Some (JNum x)) uid] \<and>
      opt_member (payload (qris_request (Some (JNum x)) uid)) ''amount'' =
        Some (case x of Fin r \<Rightarrow> JNum (Fin r) | PInf \<Rightarrow> JNull | NInf \<Rightarrow> JNull) \<and>
      opt_member (payload (qris_request_v2 (Some (JNum x)) uid)) ''amount'' =
        Some (case x of Fin r \<Rightarrow> JNum (Fin r) | PInf \<Rightarrow> JNull | NInf \<Rightarrow> JNull)"
    if a: "x \<noteq> Fin 0 \<and> get_prop body ''amount'' = Some (JNum x) \<and>
           truthy (get_prop body ''userId'') \<and> js_string e (get_prop body ''userId'') = Inr uid"
    for x uid
  proof -
    from a have t: "truthy (get_prop body ''amount'')" "truthy (get_prop body ''userId'')" by simp_all
    from a have cu: "js_string e (get_prop body ''userId'') = Inr uid" by simp
    from a have ca: "js_string e (get_prop body ''amount'') = Inr (number_text e x)"
      by (simp add: js_string_number)
    from post_qris_forward [OF t cu] a
    have 1: "snd (post_qris e body) = [qris_request (Some (JNum x)) uid]"
      by (simp add: respond_calls caught_calls)
    from post_qris_v2_forward [OF t cu ca] a
    have 2: "snd (post_qris_v2 e body) = [qris_request_v2 (Some (JNum x)) uid]"
      by (simp add: respond_calls caught_v2_calls)
    have 3: "opt_member (payload (qris_request (Some (JNum x)) uid)) ''amount'' =
        Some (case x of Fin r \<Rightarrow> JNum (Fin r) | PInf \<Rightarrow> JNull | NInf \<Rightarrow> JNull)"
      by (simp add: qris_request_def donation_body_def opt_member_def)
    have 4: "opt_member (payload (qris_request_v2 (Some (JNum x)) uid)) ''amount'' =
        Some (case x of Fin r \<Rightarrow> JNum (Fin r) | PInf \<Rightarrow> JNull | NInf \<Rightarrow> JNull)"
      by (simp add: qris_request_v2_def donation_body_def opt_member_def)
    from 1 2 3 4 show ?thesis by (intro conjI)
  qed
  from falsy have zero: "post_qris e body =
      (Reply 400 (JObj [(''success'', JBool False), (''error'', JStr ''Amount and userId are required'')]), []) \<and>
      post_qris_v2 e body =
      (Reply 400 (JObj [(''success'', JBool False), (''error'', JStr ''Amount and userId are required'')]), [])"
    if "get_prop body ''amount'' = Some (JNum (Fin 0))"
    using that by simp
  show ?thesis
    apply (rule conjI)
     apply (rule impI)
     apply (erule falsy)
    apply (rule conjI)
     apply (rule impI)
     apply (erule zero)
    apply (rule allI)
    apply (rule allI)
    apply (rule impI)
    apply (erule forwarded)
    done
qed

theorem qris_amount_truthiness_witness:
  "post_qris pending_env zero_request =
     (Reply 400 (JObj [(''success'', JBool False),
                       (''error'', JStr ''Amount and userId are required'')]), []) \<and>
   post_qris_v2 pending_env zero_request =
     (Reply 400 (JObj [(''success'', JBool False),
                       (''error'', JStr ''Amount and userId are required'')]), []) \<and>
   snd (post_qris pending_env negative_request) =
     [qris_request (Some (JNum (Fin (- 5000)))) ''abc''] \<and>
   snd (post_qris_v2 pending_env negative_request) =
     [qris_request_v2 (Some (JNum (Fin (- 5000)))) ''abc''] \<and>
   opt_member (payload (qris_request (Some (JNum (Fin (- 5000)))) ''abc'')) ''amount'' =
     Some (JNum (Fin (- 5000))) \<and>
   snd (post_qris pending_env half_request) =
     [qris_request (Some (JNum (Fin (1 / 2)))) ''abc''] \<and>
   opt_member (payload (qris_request (Some (JNum (Fin (1 / 2)))) ''abc'')) ''amount'' =
     Some (JNum (Fin (1 / 2)))"
proof -
  have z: "zero_request \<noteq> JNull" and n: "negative_request \<noteq> JNull" and h: "half_request \<noteq> JNull"
    by (simp_all add: zero_request_def negative_request_def half_request_def)
  have za: "get_prop zero_request ''amount'' = Some (JNum (Fin 0))"
    by (simp add: zero_request_def)
  have na: "Fin (- 5000) \<noteq> Fin 0 \<and> get_prop negative_request ''amount'' = Some (JNum (Fin (- 5000))) \<and>
      truthy (get_prop negative_request ''userId'') \<and>
      js_string pending_env (get_prop negative_request ''userId'') = Inr ''abc''"
    by (simp add: negative_request_def js_string_def)
  have ha: "Fin (1 / 2) \<noteq> Fin 0 \<and> get_prop half_request ''amount'' = Some (JNum (Fin (1 / 2))) \<and>
      truthy (get_prop half_request ''userId'') \<and>
      js_string pending_env (get_prop half_request ''userId'') = Inr ''abc''"
    by (simp add: half_request_def js_string_def)
  from qris_amount_truthiness [OF z, of pending_env, THEN conjunct2, THEN conjunct1, rule_format, OF za]
  have 1: "post_qris pending_env zero_request =
     (Reply 400 (JObj [(''success'', JBool False),
                       (''error'', JStr ''Amount and userId are required'')]), []) \<and>
   post_qris_v2 pending_env zero_request =
     (Reply 400 (JObj [(''success'', JBool False),
                       (''error'', JStr ''Amount and userId are required'')]), [])" .
  from qris_amount_truthiness [OF n, of pending_env, THEN conjunct2, THEN conjunct2, rule_format, OF na]
  have 2: "snd (post_qris pending_env negative_request) =
     [qris_request (Some (JNum (Fin (- 5000)))) ''abc''] \<and>
   snd (post_qris_v2 pending_env negative_request) =
     [qris_request_v2 (Some (JNum (Fin (- 5000)))) ''abc''] \<and>
   opt_member (payload (qris_request (Some (JNum (Fin (- 5000)))) ''abc'')) ''amount'' =
     Some (JNum (Fin (- 5000)))"
    by simp
  from qris_amount_truthiness [OF h, of pending_env, THEN conjunct2, THEN conjunct2, rule_format, OF ha]
  have 3: "snd (post_qris pending_env half_request) =
     [qris_request (Some (JNum (Fin (1 / 2)))) ''abc''] \<and>
   opt_member (payload (qris_request (Some (JNum (Fin (1 / 2)))) ''abc'')) ''amount'' =
     Some (JNum (Fin (1 / 2)))"
    by simp
  from 1 2 3 show ?thesis by simp
qed

text \<open>
  C9, as stated, fails: the amount \<^verbatim>\<open>1e400\<close> is a number other than zero and passes the
  validation, but the donation sent upstream carries \<^verbatim>\<open>amount: null\<close>, not the amount.
\<close>

theorem qris_infinite_amount_counterexample:
  "get_prop infinite_request ''amount'' = Some (JNum PInf) \<and>
   truthy (get_prop infinite_request ''amount'') \<and>
   snd (post_qris pending_env infinite_request) = [qris_request (Some (JNum PInf)) ''abc''] \<and>
   snd (post_qris_v2 pending_env infinite_request) = [qris_request_v2 (Some (JNum PInf)) ''abc''] \<and>
   opt_member (payload (qris_request (Some (JNum PInf)) ''abc'')) ''amount'' = Some JNull \<and>
   opt_member (payload (qris_request_v2 (Some (JNum PInf)) ''abc'')) ''amount'' = Some JNull \<and>
   opt_member (payload (qris_request (Some (JNum PInf)) ''abc'')) ''amount'' \<noteq> Some (JNum PInf) \<and>
   opt_member (payload (qris_request_v2 (Some (JNum PInf)) ''abc'')) ''amount'' \<noteq> Some (JNum PInf)"
proof -
  have t: "truthy (get_prop infinite_request ''amount'')" "truthy (get_prop infinite_request ''userId'')"
    by (simp_all add: infinite_request_def)
  have a: "get_prop infinite_request ''amount'' = Some (JNum PInf)"
    by (simp add: infinite_request_def)
  have cu: "js_string pending_env (get_prop infinite_request ''userId'') = Inr ''abc''"
    by (simp add: infinite_request_def js_string_def)
  have ca: "js_string pending_env (get_prop infinite_request ''amount'') = Inr ''Infinity''"
    by (simp add: infinite_request_def js_string_def number_text_def)
  from post_qris_forward [OF t cu] a
  have 1: "snd (post_qris pending_env infinite_request) = [qris_request (Some (JNum PInf)) ''abc'']"
    by (simp add: respond_calls caught_calls)
  from post_qris_v2_forward [OF t cu ca] a
  have 2: "snd (post_qris_v2 pending_env infinite_request) = [qris_request_v2 (Some (JNum PInf)) ''abc'']"
    by (simp add: respond_calls caught_v2_calls)
  have 3: "opt_member (payload (qris_request (Some (JNum PInf)) ''abc'')) ''amount'' = Some JNull"
    by (simp add: qris_request_def donation_body_def opt_member_def)
  have 4: "opt_member (payload (qris_request_v2 (Some (JNum PInf)) ''abc'')) ''amount'' = Some JNull"
    by (simp add: qris_request_v2_def donation_body_def opt_member_def)
  from a t(1) 1 2 3 4 show ?thesis by simp
qed

text \<open>
  C10. In every successful reply to \<^verbatim>\<open>POST /qris\<close>, \<^verbatim>\<open>data\<close> is the upstream's
  \<^verbatim>\<open>data\<close> object with \<^verbatim>\<open>qr_image\<close> written after the spread: \<^verbatim>\<open>data.qr_image\<close> is the
  data URL the encoder made of the upstream's \<^verbatim>\<open>qr_string\<close>, also when the upstream
  sent a \<^verbatim>\<open>qr_image\<close> of its own, and every other property is the upstream's.
\<close>

theorem qris_image_written_after_spread:
  "(fst (post_qris e body) = Reply 200 b \<longrightarrow>
      (\<exists>uid r result fs q img.
         js_string e (get_prop body ''userId'') = Inr uid \<and>
         fetch e (qris_request (get_prop body ''amount'') uid) = Inr r \<and>
         response_json e r = Inr result \<and>
         get_prop result ''data'' = Some (JObj fs) \<and> map_of fs ''qr_string'' = Some q \<and>
         toDataURL e q qr_opts = Inr img \<and>
         b = JObj [(''success'', JBool True),
                   (''data'', JObj (AList.update ''qr_image'' (JStr img) fs))] \<and>
         opt_member (get_prop b ''data'') ''qr_image'' = Some (JStr img) \<and>
         (\<forall>k. k \<noteq> ''qr_image'' \<longrightarrow> opt_member (get_prop b ''data'') k = map_of fs k))) \<and>
   (fst (post_qris_v2 e body) = Reply 200 b \<longrightarrow>
      (\<exists>uid r result fs q img.
         js_string e (get_prop body ''userId'') = Inr uid \<and>
         fetch e (qris_request_v2 (get_prop body ''amount'') uid) = Inr r \<and>
         response_json e r = Inr result \<and>
         get_prop result ''data'' = Some (JObj fs) \<and> map_of fs ''qr_string'' = Some q \<and>
         toDataURL e q qr_opts = Inr img \<and>
         b = JObj [(''success'', JBool True),
                   (''data'', JObj (AList.update ''qr_image'' (JStr img) fs))] \<and>
         opt_member (get_prop b ''data'') ''qr_image'' = Some (JStr img) \<and>
         (\<forall>k. k \<noteq> ''qr_image'' \<longrightarrow> opt_member (get_prop b ''data'') k = map_of fs k)))"
proof (intro conjI impI)
  assume "fst (post_qris e body) = Reply 200 b"
  from post_qris_200 [OF this] obtain uid where
    u: "js_string e (get_prop body ''userId'') = Inr uid"
    and g: "generateQRIS_fetch e (qris_request (get_prop body ''amount'') uid) = Inr b"
    by (elim exE conjE)
  from g obtain r result where
    "fetch e (qris_request (get_prop body ''amount'') uid) = Inr r"
    "response_json e r = Inr result"
    "qris_result e ''Failed to generate QRIS: No QR string in response'' result = Inr b"
    by (drule_tac generateQRIS_fetch_Inr) (elim exE conjE)
  then have "\<exists>r result fs q img.
         fetch e (qris_request (get_prop body ''amount'') uid) = Inr r \<and>
         response_json e r = Inr result \<and>
         get_prop result ''data'' = Some (JObj fs) \<and> map_of fs ''qr_string'' = Some q \<and>
         toDataURL e q qr_opts = Inr img \<and>
         b = JObj [(''success'', JBool True),
                   (''data'', JObj (AList.update ''qr_image'' (JStr img) fs))] \<and>
         opt_member (get_prop b ''data'') ''qr_image'' = Some (JStr img) \<and>
         (\<forall>k. k \<noteq> ''qr_image'' \<longrightarrow> opt_member (get_prop b ''data'') k = map_of fs k)"
    by (rule qris_result_Inr_relay)
  with u show "\<exists>uid r result fs q img.
         js_string e (get_prop body ''userId'') = Inr uid \<and>
         fetch e (qris_request (get_prop body ''amount'') uid) = Inr r \<and>
         response_json e r = Inr result \<and>
         get_prop result ''data'' = Some (JObj fs) \<and> map_of fs ''qr_string'' = Some q \<and>
         toDataURL e q qr_opts = Inr img \<and>
         b = JObj [(''success'', JBool True),
                   (''data'', JObj (AList.update ''qr_image'' (JStr img) fs))] \<and>
         opt_member (get_prop b ''data'') ''qr_image'' = Some (JStr img) \<and>
         (\<forall>k. k \<noteq> ''qr_image'' \<longrightarrow> opt_member (get_prop b ''data'') k = map_of fs k)"
    by (intro exI [of _ uid]) simp
next
  assume "fst (post_qris_v2 e body) = Reply 200 b"
  from post_qris_v2_200 [OF this] obtain uid where
    u: "js_string e (get_prop body ''userId'') = Inr uid"
    and g: "generateQRIS_fetch_v2 e (qris_request_v2 (get_prop body ''amount'') uid) = Inr b"
    by (elim exE conjE)
  from g obtain r result where
    "fetch e (qris_request_v2 (get_prop body ''amount'') uid) = Inr r"
    "response_json e r = Inr result"
    "qris_result e ''No QR string in response'' result = Inr b"
    by (drule_tac generateQRIS_fetch_v2_Inr) (elim exE conjE)
  then have "\<exists>r result fs q img.
         fetch e (qris_request_v2 (get_prop body ''amount'') uid) = Inr r \<and>
         response_json e r = Inr result \<and>
         get_prop result ''data'' = Some (JObj fs) \<and> map_of fs ''qr_string'' = Some q \<and>
         toDataURL e q qr_opts = Inr img \<and>
         b = JObj [(''success'', JBool True),
                   (''data'', JObj (AList.update ''qr_image'' (JStr img) fs))] \<and>
         opt_member (get_prop b ''data'') ''qr_image'' = Some (JStr img) \<and>
         (\<forall>k. k \<noteq> ''qr_image'' \<longrightarrow> opt_member (get_prop b ''data'') k = map_of fs k)"
    by (rule qris_result_Inr_relay)
  with u show "\<exists>uid r result fs q img.
         js_string e (get_prop body ''userId'') = Inr uid \<and>
         fetch e (qris_request_v2 (get_prop body ''amount'') uid) = Inr r \<and>
         response_json e r = Inr result \<and>
         get_prop result ''data'' = Some (JObj fs) \<and> map_of fs ''qr_string'' = Some q \<and>
         toDataURL e q qr_opts = Inr img \<and>
         b = JObj [(''success'', JBool True),
                   (''data'', JObj (AList.update ''qr_image'' (JStr img) fs))] \<and>
         opt_member (get_prop b ''data'') ''qr_image'' = Some (JStr img) \<and>
         (\<forall>k. k \<noteq> ''qr_image'' \<longrightarrow> opt_member (get_prop b ''data'') k = map_of fs k)"
    by (intro exI [of _ uid]) simp
qed

theorem qris_image_written_after_spread_witness:
  "fst (post_qris imaged_env sample_request) =
     Reply 200 (JObj [(''success'', JBool True),
                      (''data'', JObj [(''id'', JStr ''d1''),
                                       (''qr_image'', JStr ''data:image/png;base64,iVBORw0KGgo=''),
                                       (''qr_string'', JStr ''00020101'')])]) \<and>
   fst (post_qris_v2 imaged_env sample_request) =
     Reply 200 (JObj [(''success'', JBool True),
                      (''data'', JObj [(''id'', JStr ''d1''),
                                       (''qr_image'', JStr ''data:image/png;base64,iVBORw0KGgo=''),
                                       (''qr_string'', JStr ''00020101'')])]) \<and>
   (\<exists>uid r result fs q img.
      js_string imaged_env (get_prop sample_request ''userId'') = Inr uid \<and>
      fetch imaged_env (qris_request (get_prop sample_request ''amount'') uid) = Inr r \<and>
      response_json imaged_env r = Inr result \<and>
      get_prop result ''data'' = Some (JObj fs) \<and> map_of fs ''qr_string'' = Some q \<and>
      toDataURL imaged_env q qr_opts = Inr img \<and>
      JObj [(''success'', JBool True),
            (''data'', JObj [(''id'', JStr ''d1''),
                             (''qr_image'', JStr ''data:image/png;base64,iVBORw0KGgo=''),
                             (''qr_string'', JStr ''00020101'')])] =
        JObj [(''success'', JBool True), (''data'', JObj (AList.update ''qr_image'' (JStr img) fs))])"
proof -
  have 1: "fst (post_qris imaged_env sample_request) =
     Reply 200 (JObj [(''success'', JBool True),
                      (''data'', JObj [(''id'', JStr ''d1''),
                                       (''qr_image'', JStr ''data:image/png;base64,iVBORw0KGgo=''),
                                       (''qr_string'', JStr ''00020101'')])])"
    by (simp add: run_defs sample_defs)
  have 2: "fst (post_qris_v2 imaged_env sample_request) =
     Reply 200 (JObj [(''success'', JBool True),
                      (''data'', JObj [(''id'', JStr ''d1''),
                                       (''qr_image'', JStr ''data:image/png;base64,iVBORw0KGgo=''),
                                       (''qr_string'', JStr ''00020101'')])])"
    by (simp add: run_defs sample_defs Let_def)
  from qris_image_written_after_spread [THEN conjunct1, rule_format, OF 1]
  obtain uid r result fs q img where
    "js_string imaged_env (get_prop sample_request ''userId'') = Inr uid"
    "fetch imaged_env (qris_request (get_prop sample_request ''amount'') uid) = Inr r"
    "response_json imaged_env r = Inr result"
    "get_prop result ''data'' = Some (JObj fs)" "map_of fs ''qr_string'' = Some q"
    "toDataURL imaged_env q qr_opts = Inr img"
    "JObj [(''success'', JBool True),
            (''data'', JObj [(''id'', JStr ''d1''),
                             (''qr_image'', JStr ''data:image/png;base64,iVBORw0KGgo=''),
                             (''qr_string'', JStr ''00020101'')])] =
        JObj [(''success'', JBool True), (''data'', JObj (AList.update ''qr_image'' (JStr img) fs))]"
    by (elim exE conjE)
  then have "\<exists>uid r result fs q img.
      js_string imaged_env (get_prop sample_request ''userId'') = Inr uid \<and>
      fetch imaged_env (qris_request (get_prop sample_request ''amount'') uid) = Inr r \<and>
      response_json imaged_env r = Inr result \<and>
      get_prop result ''data'' = Some (JObj fs) \<and> map_of fs ''qr_string'' = Some q \<and>
      toDataURL imaged_env q qr_opts = Inr img \<and>
      JObj [(''success'', JBool True),
            (''data'', JObj [(''id'', JStr ''d1''),
                             (''qr_image'', JStr ''data:image/png;base64,iVBORw0KGgo=''),
                             (''qr_string'', JStr ''00020101'')])] =
        JObj [(''success'', JBool True), (''data'', JObj (AList.update ''qr_image'' (JStr img) fs))]"
    by (intro exI conjI)
  with 1 2 show ?thesis by (intro conjI)
qed

text \<open>
  In the second variant a reply to the donation whose content type is not JSON is not
  parsed: its text decides the message.
\<close>

lemma qris_v2_non_json_reply:
  assumes "truthy (get_prop body ''amount'')" and "truthy (get_prop body ''userId'')"
    and "js_string e (get_prop body ''userId'') = Inr uid"
    and "js_string e (get_prop body ''amount'') = Inr a"
    and "fetch e (qris_request_v2 (get_prop body ''amount'') uid) = Inr r"
    and "not_json (content_type r)" and "body_text r = Inr textResponse"
  shows "fst (post_qris_v2 e body) = Reply 400 (failure_v2 e (non_json_error e r textResponse))"
  using assms(5-7) post_qris_v2_forward [OF assms(1-4)]
  by (simp add: generateQRIS_fetch_v2_def caught_v2_Inl respond_failure_v2)

subsection \<open>Checking the payment status\<close>

text \<open>
  C2, as amended. When the \<^verbatim>\<open>data\<close> of the upstream reply to
  \<^verbatim>\<open>GET /status/:donationId\<close> is truthy (as every object is), both variants reply with
  status 200, a status that depends on \<^verbatim>\<open>data.qr_string\<close> alone (\<^verbatim>\<open>PENDING\<close> when it is
  truthy, as a non-empty string is; \<^verbatim>\<open>PAID\<close> when it is absent, \<^verbatim>\<open>null\<close> or empty) and
  the upstream's \<^verbatim>\<open>data\<close> itself, unchanged.
\<close>

theorem status_derived_from_qr_string:
  assumes "get_prop result ''data'' = Some d" and "truthy (Some d)"
    and "response_json e r = Inr result"
  shows "(fetch e (status_request donationId) = Inr r \<longrightarrow>
            get_status e donationId =
              (Reply 200 (JObj [(''success'', JBool True),
                                (''status'', JStr (if truthy (get_prop d ''qr_string'') then ''PENDING'' else ''PAID'')),
                                (''data'', d)]),
               [status_request donationId])) \<and>
         (fetch e (status_request_v2 donationId) = Inr r \<longrightarrow>
            get_status_v2 e donationId =
              (Reply 200 (JObj [(''success'', JBool True),
                                (''status'', JStr (if truthy (get_prop d ''qr_string'') then ''PENDING'' else ''PAID'')),
                                (''data'', d)]),
               [status_request_v2 donationId])) \<and>
         (get_prop d ''qr_string'' = None \<or> get_prop d ''qr_string'' = Some JNull \<or>
          get_prop d ''qr_string'' = Some (JStr []) \<longrightarrow> \<not> truthy (get_prop d ''qr_string'')) \<and>
         (\<forall>s. get_prop d ''qr_string'' = Some (JStr s) \<and> s \<noteq> [] \<longrightarrow> truthy (get_prop d ''qr_string''))"
proof -
  from assms(1) have "result \<noteq> JNull" by auto
  with assms(1,2) have s: "status_result result =
      Inr (JObj [(''success'', JBool True),
                 (''status'', JStr (if truthy (get_prop d ''qr_string'') then ''PENDING'' else ''PAID'')),
                 (''data'', d)])"
    by (cases result) (simp_all add: status_result_def member_def)
  show ?thesis
    using s assms(3)
    by (auto simp: get_status_def get_status_v2_def checkPaymentStatus_def checkPaymentStatus_v2_def
        checkPaymentStatus_fetch_def caught_def respond_def)
qed

theorem status_derived_from_qr_string_witness:
  "get_status paid_env ''d1'' =
     (Reply 200 (JObj [(''success'', JBool True), (''status'', JStr ''PAID''), (''data'', paid_donation)]),
      [status_request ''d1'']) \<and>
   get_status_v2 paid_env ''d1'' =
     (Reply 200 (JObj [(''success'', JBool True), (''status'', JStr ''PAID''), (''data'', paid_donation)]),
      [status_request_v2 ''d1''])"
proof -
  have d: "get_prop (JObj [(''data'', paid_donation)]) ''data'' = Some paid_donation" by simp
  have t: "truthy (Some paid_donation)" by (simp add: paid_donation_def)
  have j: "response_json paid_env (json_reply paid_text) = Inr (JObj [(''data'', paid_donation)])"
    by (simp add: response_json_def paid_env_def upstream_env_def json_reply_def)
  have f: "fetch paid_env (status_request ''d1'') = Inr (json_reply paid_text)"
    and f2: "fetch paid_env (status_request_v2 ''d1'') = Inr (json_reply paid_text)"
    by (simp_all add: paid_env_def upstream_env_def)
  have q: "get_prop paid_donation ''qr_string'' = Some JNull" by (simp add: paid_donation_def)
  from status_derived_from_qr_string [OF d t j, of "''d1''"] f f2 q
  show ?thesis by simp
qed

text \<open>
  C2, as stated, fails: the upstream reply \<^verbatim>\<open>{"data": null}\<close> has a \<^verbatim>\<open>data\<close> field, and
  both variants answer it with status 400 and \<^verbatim>\<open>Invalid response structure\<close>, with no
  status and no data.
\<close>

theorem status_null_data_counterexample:
  "fetch null_data_env (status_request ''d1'') = Inr (json_reply null_data_text) \<and>
   response_json null_data_env (json_reply null_data_text) = Inr (JObj [(''data'', JNull)]) \<and>
   get_prop (JObj [(''data'', JNull)]) ''data'' = Some JNull \<and>
   get_status null_data_env ''d1'' =
     (Reply 400 (JObj [(''success'', JBool False), (''error'', JStr ''Invalid response structure'')]),
      [status_request ''d1'']) \<and>
   get_status_v2 null_data_env ''d1'' =
     (Reply 400 (JObj [(''success'', JBool False), (''error'', JStr ''Invalid response structure'')]),
      [status_request_v2 ''d1'']) \<and>
   get_prop (JObj [(''success'', JBool False), (''error'', JStr ''Invalid response structure'')])
     ''status'' = None"
  by (simp add: run_defs sample_defs)

text \<open>A \<^verbatim>\<open>data\<close> that is absent or falsy is answered with status 400.\<close>

lemma status_falsy_data_rejected:
  assumes "response_json e r = Inr result" and "result \<noteq> JNull"
    and "\<not> truthy (get_prop result ''data'')"
  shows "(fetch e (status_request donationId) = Inr r \<longrightarrow>
            fst (get_status e donationId) = Reply 400 (failure ''Invalid response structure'')) \<and>
         (fetch e (status_request_v2 donationId) = Inr r \<longrightarrow>
            fst (get_status_v2 e donationId) = Reply 400 (failure ''Invalid response structure''))"
proof -
  from assms(2,3) have "status_result result = Inl ''Invalid response structure''"
    by (cases result) (auto simp: status_result_def member_def split: option.splits)
  with assms(1) show ?thesis
    by (simp add: get_status_def get_status_v2_def checkPaymentStatus_def checkPaymentStatus_v2_def
        checkPaymentStatus_fetch_def caught_Inl respond_failure)
qed

subsection \<open>Checking the balance\<close>

text \<open>
  C4, as amended. For a \<^verbatim>\<open>GET /balance\<close> with a token, when the upstream was asked (in
  the second variant, when \<^verbatim>\<open>${token}\<close> did not throw) and its reply does not parse as
  JSON (an HTML page), both variants reply with status 400 and
  \<^verbatim>\<open>{success: false, error: m}\<close>, where \<open>m\<close> is the message of the error that
  \<^verbatim>\<open>response.json()\<close> raised. \<^verbatim>\<open>checkAccountBalance\<close> looks neither at the content type nor
  at the text of the reply.
\<close>

theorem balance_non_json_reply:
  assumes "truthy token" and "response_json e r = Inl m"
  shows "(fetch e (balance_request token) = Inr r \<longrightarrow>
            get_balance e token =
              (Reply 400 (JObj [(''success'', JBool False), (''error'', JStr m)]),
               [balance_request token])) \<and>
         (\<forall>t. js_string e token = Inr t \<and> fetch e (balance_request_v2 t) = Inr r \<longrightarrow>
            get_balance_v2 e token =
              (Reply 400 (JObj [(''success'', JBool False), (''error'', JStr m)]),
               [balance_request_v2 t]))"
  using assms
  by (auto simp: get_balance_def get_balance_v2_def checkAccountBalance_def checkAccountBalance_v2_def
      checkAccountBalance_try_v2_def checkAccountBalance_fetch_def caught_def respond_def failure_def)

theorem balance_non_json_reply_witness:
  "get_balance html_env (Some (JStr ''abc'')) =
     (Reply 400 (JObj [(''success'', JBool False),
                       (''error'', JStr ''Unexpected token < in JSON at position 0'')]),
      [balance_request (Some (JStr ''abc''))]) \<and>
   get_balance_v2 html_env (Some (JStr ''abc'')) =
     (Reply 400 (JObj [(''success'', JBool False),
                       (''error'', JStr ''Unexpected token < in JSON at position 0'')]),
      [balance_request_v2 ''abc''])"
proof -
  have t: "truthy (Some (JStr ''abc''))" by simp
  have j: "response_json html_env html_reply = Inl ''Unexpected token < in JSON at position 0''"
    by (simp add: response_json_def html_env_def upstream_env_def html_reply_def html_parse_error_def)
  have f: "fetch html_env (balance_request (Some (JStr ''abc''))) = Inr html_reply"
    and f2: "js_string html_env (Some (JStr ''abc'')) = Inr ''abc'' \<and>
             fetch html_env (balance_request_v2 ''abc'') = Inr html_reply"
    by (simp_all add: html_env_def upstream_env_def js_string_def)
  from balance_non_json_reply [OF t j, THEN conjunct1, rule_format, OF f]
    balance_non_json_reply [OF t j, THEN conjunct2, rule_format, OF f2]
  show ?thesis by simp
qed

text \<open>
  C4, as stated, fails: for an HTML reply with status 403 and no Cloudflare marker the
  error of the balance reply is the parser's message, not
  \<^verbatim>\<open>API returned non-JSON response: 403\<close>.
\<close>

theorem balance_non_json_counterexample:
  "fst (get_balance html_env (Some (JStr ''abc''))) =
     Reply 400 (JObj [(''success'', JBool False),
                      (''error'', JStr ''Unexpected token < in JSON at position 0'')]) \<and>
   fst (get_balance html_env (Some (JStr ''abc''))) \<noteq>
     Reply 400 (JObj [(''success'', JBool False),
                      (''error'', JStr ''API returned non-JSON response: 403'')]) \<and>
   fst (get_balance_v2 html_env (Some (JStr ''abc''))) =
     Reply 400 (JObj [(''success'', JBool False),
                      (''error'', JStr ''Unexpected token < in JSON at position 0'')]) \<and>
   fst (get_balance_v2 html_env (Some (JStr ''abc''))) \<noteq>
     Reply 400 (JObj [(''success'', JBool False),
                      (''error'', JStr ''API returned non-JSON response: 403'')]) \<and>
   status_code html_reply = 403 \<and>
   body_text html_reply = Inr ''<html><body>Forbidden</body></html>'' \<and>
   \<not> str_includes ''<html><body>Forbidden</body></html>'' ''cloudflare'' \<and>
   \<not> str_includes ''<html><body>Forbidden</body></html>'' ''cf-ray''"
  by (simp add: run_defs sample_defs)

text \<open>
  In the second variant a token whose conversion throws is answered with status 400 and
  the runtime's message, and \<^verbatim>\<open>fetch\<close> is not called.
\<close>

lemma balance_v2_unconvertible_token:
  assumes "truthy token" and "js_string e token = Inl m"
  shows "get_balance_v2 e token = (Reply 400 (failure m), [])"
  using assms
  by (simp add: get_balance_v2_def checkAccountBalance_v2_def checkAccountBalance_try_v2_def
      caught_Inl respond_failure)

text \<open>
  C7. A \<^verbatim>\<open>GET /balance\<close> without a \<^verbatim>\<open>token\<close> query parameter is answered, in both
  variants, with exactly status 400 and \<^verbatim>\<open>{success: false, error: "Token is required"}\<close>,
  and nothing is handed to \<^verbatim>\<open>fetch\<close>.
\<close>

theorem balance_missing_token_rejected:
  "get_balance e None =
     (Reply 400 (JObj [(''success'', JBool False), (''error'', JStr ''Token is required'')]), []) \<and>
   get_balance_v2 e None =
     (Reply 400 (JObj [(''success'', JBool False), (''error'', JStr ''Token is required'')]), [])"
  by (simp add: get_balance_def get_balance_v2_def failure_def)

theorem balance_missing_token_rejected_witness:
  "get_balance pending_env None =
     (Reply 400 (JObj [(''success'', JBool False), (''error'', JStr ''Token is required'')]), []) \<and>
   get_balance_v2 pending_env None =
     (Reply 400 (JObj [(''success'', JBool False), (''error'', JStr ''Token is required'')]), [])"
  by (rule balance_missing_token_rejected)

text \<open>
  C8, as amended. A balance lookup with the token \<open>t\<close> hands exactly one request to
  \<^verbatim>\<open>fetch\<close>, and \<open>t\<close> is in its \<^verbatim>\<open>Authorization\<close> header unmodified: as the whole value
  of the header in the first variant, after the scheme \<^verbatim>\<open>Bearer\<close> and a space in the
  second.
\<close>

theorem balance_token_forwarded:
  assumes "t \<noteq> []"
  shows "snd (get_balance e (Some (JStr t))) = [balance_request (Some (JStr t))] \<and>
         map_of (headers (balance_request (Some (JStr t)))) ''Authorization'' = Some (Some (JStr t)) \<and>
         snd (get_balance_v2 e (Some (JStr t))) = [balance_request_v2 t] \<and>
         map_of (headers (balance_request_v2 t)) ''Authorization'' = Some (Some (JStr (''Bearer '' @ t)))"
proof (intro conjI)
  from assms show "snd (get_balance e (Some (JStr t))) = [balance_request (Some (JStr t))]"
    by (simp add: get_balance_def respond_calls checkAccountBalance_def Let_def caught_calls)
  from assms show "snd (get_balance_v2 e (Some (JStr t))) = [balance_request_v2 t]"
    by (simp add: get_balance_v2_def respond_calls checkAccountBalance_v2_def
        checkAccountBalance_try_v2_def js_string_text Let_def caught_calls)
  show "map_of (headers (balance_request (Some (JStr t)))) ''Authorization'' = Some (Some (JStr t))"
    by (simp add: balance_request_def browser_headers_def text_headers_def)
  show "map_of (headers (balance_request_v2 t)) ''Authorization'' = Some (Some (JStr (''Bearer '' @ t)))"
    by (simp add: balance_request_v2_def text_headers_def)
qed

theorem balance_token_forwarded_witness:
  "snd (get_balance pending_env (Some (JStr ''abc''))) = [balance_request (Some (JStr ''abc''))] \<and>
   map_of (headers (balance_request (Some (JStr ''abc'')))) ''Authorization'' = Some (Some (JStr ''abc'')) \<and>
   snd (get_balance_v2 pending_env (Some (JStr ''abc''))) = [balance_request_v2 ''abc''] \<and>
   map_of (headers (balance_request_v2 ''abc'')) ''Authorization'' = Some (Some (JStr ''Bearer abc''))"
proof -
  have "''abc'' \<noteq> []" by simp
  from balance_token_forwarded [OF this, of pending_env] show ?thesis by simp
qed

text \<open>
  C8, as stated, fails in the first variant: for the token \<^verbatim>\<open>abc\<close> the
  \<^verbatim>\<open>Authorization\<close> header of the request is \<^verbatim>\<open>abc\<close>, which is not the bearer credential
  \<^verbatim>\<open>Bearer abc\<close>.
\<close>

theorem balance_header_counterexample:
  "snd (get_balance pending_env (Some (JStr ''abc''))) = [balance_request (Some (JStr ''abc''))] \<and>
   map_of (headers (balance_request (Some (JStr ''abc'')))) ''Authorization'' = Some (Some (JStr ''abc'')) \<and>
   map_of (headers (balance_request (Some (JStr ''abc'')))) ''Authorization'' \<noteq>
     Some (Some (JStr ''Bearer abc''))"
  by (simp add: get_balance_def respond_calls checkAccountBalance_def Let_def caught_calls
      balance_request_def browser_headers_def text_headers_def)

subsection \<open>Status codes\<close>

text \<open>
  C5. Every reply of the three handlers, in both variants, has status 200 exactly when
  its body's \<^verbatim>\<open>success\<close> is \<^verbatim>\<open>true\<close> and status 400 otherwise: whatever failed
  (validation, the shape of the upstream's reply, the network, the parser, a conversion
  inside a \<^verbatim>\<open>try\<close> block), the status is 400 and never another one. The handlers of
  the status and of the balance always reply. The handler of \<^verbatim>\<open>POST /qris\<close> sends
  nothing, and has called nothing, in two cases only: a \<^verbatim>\<open>null\<close> body (which
  \<^verbatim>\<open>bodyParser.json()\<close> never delivers) and a user id whose conversion to a string, done
  before the \<^verbatim>\<open>try\<close> block, throws.
\<close>

theorem handlers_status_follows_success:
  "(envelope_ok (fst (post_qris e body)) \<or>
    (\<exists>m. post_qris e body = (Fault m, []) \<and>
         (body = JNull \<or> js_string e (get_prop body ''userId'') = Inl m))) \<and>
   (envelope_ok (fst (post_qris_v2 e body)) \<or>
    (\<exists>m. post_qris_v2 e body = (Fault m, []) \<and>
         (body = JNull \<or> js_string e (get_prop body ''userId'') = Inl m))) \<and>
   envelope_ok (fst (get_status e donationId)) \<and> envelope_ok (fst (get_status_v2 e donationId)) \<and>
   envelope_ok (fst (get_balance e token)) \<and> envelope_ok (fst (get_balance_v2 e token))"
proof (intro conjI)
  show "envelope_ok (fst (post_qris e body)) \<or>
    (\<exists>m. post_qris e body = (Fault m, []) \<and>
         (body = JNull \<or> js_string e (get_prop body ''userId'') = Inl m))"
  proof (cases "body = JNull")
    case True
    then show ?thesis by (simp add: post_qris_def)
  next
    case False
    show ?thesis
    proof (cases "truthy (get_prop body ''amount'') \<and> truthy (get_prop body ''userId'')")
      case False
      with \<open>body \<noteq> JNull\<close> have "post_qris e body = (Reply 400 (failure ''Amount and userId are required''), [])"
        by (cases body) (auto simp: post_qris_def)
      then show ?thesis by (simp add: envelope_validation)
    next
      case True
      then have v: "truthy (get_prop body ''amount'')" "truthy (get_prop body ''userId'')" by simp_all
      show ?thesis
      proof (cases "js_string e (get_prop body ''userId'')")
        case (Inl m)
        with post_qris_unconvertible_userId(1) [OF v Inl] show ?thesis by simp
      next
        case (Inr uid)
        from post_qris_forward [OF v Inr] show ?thesis by (simp add: envelope_caught_qris)
      qed
    qed
  qed
next
  show "envelope_ok (fst (post_qris_v2 e body)) \<or>
    (\<exists>m. post_qris_v2 e body = (Fault m, []) \<and>
         (body = JNull \<or> js_string e (get_prop body ''userId'') = Inl m))"
  proof (cases "body = JNull")
    case True
    then show ?thesis by (simp add: post_qris_v2_def)
  next
    case False
    show ?thesis
    proof (cases "truthy (get_prop body ''amount'') \<and> truthy (get_prop body ''userId'')")
      case False
      with \<open>body \<noteq> JNull\<close> have "post_qris_v2 e body = (Reply 400 (failure ''Amount and userId are required''), [])"
        by (cases body) (auto simp: post_qris_v2_def)
      then show ?thesis by (simp add: envelope_validation)
    next
      case True
      then have v: "truthy (get_prop body ''amount'')" "truthy (get_prop body ''userId'')" by simp_all
      show ?thesis
      proof (cases "js_string e (get_prop body ''userId'')")
        case (Inl m)
        with post_qris_unconvertible_userId(2) [OF v Inl] show ?thesis by simp
      next
        case (Inr uid)
        note uid = this
        show ?thesis
        proof (cases "js_string e (get_prop body ''amount'')")
          case (Inl m)
          from post_qris_v2_unconvertible_amount [OF v uid Inl] show ?thesis
            by (simp add: envelope_ok_def failure_v2_def)
        next
          case (Inr a)
          from post_qris_v2_forward [OF v uid Inr] show ?thesis by (simp add: envelope_caught_qris_v2)
        qed
      qed
    qed
  qed
next
  show "envelope_ok (fst (get_status e donationId))"
    by (simp add: get_status_def checkPaymentStatus_def Let_def envelope_caught_status)
  show "envelope_ok (fst (get_status_v2 e donationId))"
    by (simp add: get_status_v2_def checkPaymentStatus_v2_def Let_def envelope_caught_status)
  show "envelope_ok (fst (get_balance e token))"
    by (simp add: get_balance_def checkAccountBalance_def Let_def envelope_validation envelope_caught_balance)
  show "envelope_ok (fst (get_balance_v2 e token))"
    by (simp add: get_balance_v2_def envelope_validation envelope_balance_v2)
qed

theorem handlers_status_follows_success_witness:
  "envelope_ok (fst (post_qris pending_env sample_request)) \<and>
   envelope_ok (fst (post_qris_v2 html_env sample_request)) \<and>
   envelope_ok (fst (get_status pending_env ''d1'')) \<and>
   envelope_ok (fst (get_status_v2 html_env ''d1'')) \<and>
   envelope_ok (fst (get_balance pending_env (Some (JStr ''abc'')))) \<and>
   envelope_ok (fst (get_balance_v2 html_env None)) \<and>
   fst (post_qris_v2 html_env sample_request) =
     Reply 400 (JObj [(''success'', JBool False),
                      (''error'', JStr ''API returned non-JSON response: 403''),
                      (''timestamp'', JStr ''2025-01-15T10:30:00.000Z'')]) \<and>
   post_qris pending_env stubborn_request = (Fault no_primitive, []) \<and>
   post_qris_v2 pending_env stubborn_request = (Fault no_primitive, [])"
proof -
  have "number_text html_env (Fin 403) = ''403''"
    using number_text_integer [of 403 html_env] by (simp add: decimal_def string_of_nat.simps)
  then have r: "fst (post_qris_v2 html_env sample_request) =
     Reply 400 (JObj [(''success'', JBool False),
                      (''error'', JStr ''API returned non-JSON response: 403''),
                      (''timestamp'', JStr ''2025-01-15T10:30:00.000Z'')])"
    by (simp add: run_defs sample_defs Let_def)
  have p: "fst (post_qris pending_env sample_request) =
     Reply 200 (JObj [(''success'', JBool True),
                      (''data'', JObj [(''id'', JStr ''d1''),
                                       (''qr_string'', JStr ''00020101''),
                                       (''amount'', JNum (Fin 10000)),
                                       (''currency'', JStr ''IDR''),
                                       (''qr_image'', JStr ''data:image/png;base64,iVBORw0KGgo='')])])"
    by (simp add: run_defs sample_defs)
  have s: "post_qris pending_env stubborn_request = (Fault no_primitive, [])"
    "post_qris_v2 pending_env stubborn_request = (Fault no_primitive, [])"
    by (simp_all add: post_qris_def post_qris_v2_def generateQRIS_def generateQRIS_v2_def
        js_string_def stubborn_request_def)
  note a = handlers_status_follows_success [of pending_env sample_request "''d1''" "Some (JStr ''abc'')"]
  note b = handlers_status_follows_success [of html_env sample_request "''d1''" None]
  from a p have 1: "envelope_ok (fst (post_qris pending_env sample_request))" by auto
  from b r have 2: "envelope_ok (fst (post_qris_v2 html_env sample_request))" by auto
  from a b 1 2 r s show ?thesis by simp
qed

end
